theory Spec2Isabelle
  imports Complex_Main
begin

section \<open>Strings and paths\<close>

text \<open>
  Python strings are modelled as \<^typ>\<open>string\<close>. Case folding is the ASCII one
  (\<open>A\<close>..\<open>Z\<close>); file names outside ASCII are outside this model. The path functions of
  \<open>os.path\<close> are the POSIX ones (\<open>posixpath\<close>): the separator is \<open>/\<close> and there is no
  alternative separator.
\<close>

definition lower_char :: "char \<Rightarrow> char" where
  "lower_char c = (let n = (of_char c :: nat) in if 65 \<le> n \<and> n \<le> 90 then char_of (n + 32) else c)"

definition lower :: "string \<Rightarrow> string" where
  "lower s = map lower_char s"

definition lstrip :: "char \<Rightarrow> string \<Rightarrow> string" where
  "lstrip c s = dropWhile (\<lambda>x. x = c) s"

definition rstrip :: "char \<Rightarrow> string \<Rightarrow> string" where
  "rstrip c s = rev (dropWhile (\<lambda>x. x = c) (rev s))"

definition strip :: "char \<Rightarrow> string \<Rightarrow> string" where
  "strip c s = lstrip c (rstrip c s)"

definition startswith :: "string \<Rightarrow> string \<Rightarrow> bool" where
  "startswith s p = (take (length p) s = p)"

definition replace_char :: "char \<Rightarrow> char \<Rightarrow> string \<Rightarrow> string" where
  "replace_char a b s = map (\<lambda>c. if c = a then b else c) s"

text \<open>\<open>s.rfind(c)\<close>: the index of the last occurrence of \<open>c\<close>, or \<open>-1\<close>.\<close>

fun rfind :: "char \<Rightarrow> string \<Rightarrow> int" where
  "rfind c [] = - 1"
| "rfind c (x # xs) =
     (let r = rfind c xs in if 0 \<le> r then r + 1 else if x = c then 0 else - 1)"

text \<open>\<open>s.split(c)\<close> for a one-character separator: never the empty list.\<close>

fun split_on :: "char \<Rightarrow> string \<Rightarrow> string list" where
  "split_on c [] = [[]]"
| "split_on c (x # xs) =
     (if x = c then [] # split_on c xs
      else (case split_on c xs of [] \<Rightarrow> [[x]] | p # ps \<Rightarrow> (x # p) # ps))"

text \<open>
  \<open>genericpath._splitext(p, '/', None, '.')\<close>: the extension starts at the last dot, when
  that dot lies after the last separator and some character between the separator and
  the dot is not a dot (leading dots of the base name do not start an extension).
\<close>

definition splitext :: "string \<Rightarrow> string \<times> string" where
  "splitext p =
     (let sepIndex = rfind CHR ''/'' p;
          dotIndex = rfind CHR ''.'' p
      in if sepIndex < dotIndex \<and>
            list_ex (\<lambda>c. c \<noteq> CHR ''.'')
              (take (nat (dotIndex - (sepIndex + 1))) (drop (nat (sepIndex + 1)) p))
         then (take (nat dotIndex) p, drop (nat dotIndex) p)
         else (p, []))"

definition basename :: "string \<Rightarrow> string" where
  "basename p = drop (nat (rfind CHR ''/'' p + 1)) p"

definition dirname :: "string \<Rightarrow> string" where
  "dirname p =
     (let head = take (nat (rfind CHR ''/'' p + 1)) p
      in if head \<noteq> [] \<and> head \<noteq> replicate (length head) CHR ''/''
         then rstrip CHR ''/'' head else head)"

definition path_join :: "string \<Rightarrow> string \<Rightarrow> string" where
  "path_join a b =
     (if startswith b ''/'' then b
      else if a = [] \<or> (a \<noteq> [] \<and> last a = CHR ''/'') then a @ b
      else a @ ''/'' @ b)"

section \<open>Exceptions, log records and the outside world\<close>

text \<open>
  The exceptions are the subclasses of \<open>Exception\<close> the code tells apart: the Drive
  client's \<open>HttpError\<close>, \<open>IOError\<close> with its optional \<open>errno\<close>, and everything else.
  \<open>TypeError\<close> is what \<open>raise None\<close> and a method call on \<open>None\<close> produce.
\<close>

datatype exn =
    HttpError string
  | IOError "nat option" string
  | TypeError string
  | OtherError string

definition EACCES :: nat where
  "EACCES = 13"

datatype level = DEBUG | INFO | WARNING | ERROR

text \<open>The pieces of a formatted log message, in order.\<close>

datatype frag = Str string | Opt "string option" | Num int | Flt real | Exc exn | Lst "string list"

record file_meta =
  m_id :: "string option"
  m_name :: "string option"
  m_mimeType :: "string option"
  m_parents :: "string list option"

record list_response =
  resp_files :: "file_meta list option"
  nextPageToken :: "string option"

text \<open>
  Every call that leaves the process: the Drive service, the SFTP client, the local file
  system and the clock. A call is a function of the world \<open>'w\<close> that returns a result or
  an exception, and the next world.
\<close>

record 'w env =
  time_sleep :: "real \<Rightarrow> 'w \<Rightarrow> 'w"
  files_list :: "string \<Rightarrow> nat \<Rightarrow> string \<Rightarrow> string option \<Rightarrow> 'w \<Rightarrow> (exn + list_response) \<times> 'w"
  files_get :: "string option \<Rightarrow> string \<Rightarrow> 'w \<Rightarrow> (exn + file_meta) \<times> 'w"
  files_update :: "string option \<Rightarrow> string option \<Rightarrow> string option \<Rightarrow> 'w \<Rightarrow> (exn + unit) \<times> 'w"
  files_create :: "string \<Rightarrow> 'w \<Rightarrow> (exn + string option) \<times> 'w"
  files_delete :: "string option \<Rightarrow> 'w \<Rightarrow> (exn + unit) \<times> 'w"
  media_download :: "string option \<Rightarrow> string option \<Rightarrow> string \<Rightarrow> 'w \<Rightarrow> (exn + unit) \<times> 'w"
  os_makedirs :: "string \<Rightarrow> 'w \<Rightarrow> (exn + unit) \<times> 'w"
  os_getsize :: "string \<Rightarrow> 'w \<Rightarrow> (exn + int) \<times> 'w"
  os_exists :: "string \<Rightarrow> 'w \<Rightarrow> bool \<times> 'w"
  os_remove :: "string \<Rightarrow> 'w \<Rightarrow> (exn + unit) \<times> 'w"
  transport_open :: "string \<Rightarrow> int \<Rightarrow> 'w \<Rightarrow> (exn + unit) \<times> 'w"
  load_private_key :: "string \<Rightarrow> 'w \<Rightarrow> (exn + unit) \<times> 'w"
  transport_connect :: "string \<Rightarrow> string option \<Rightarrow> string option \<Rightarrow> 'w \<Rightarrow> (exn + unit) \<times> 'w"
  sftp_from_transport :: "'w \<Rightarrow> (exn + unit) \<times> 'w"
  sftp_normalize :: "string \<Rightarrow> 'w \<Rightarrow> (exn + string) \<times> 'w"
  sftp_listdir :: "string \<Rightarrow> 'w \<Rightarrow> (exn + string list) \<times> 'w"
  sftp_stat :: "string \<Rightarrow> 'w \<Rightarrow> (exn + unit) \<times> 'w"
  sftp_mkdir :: "string \<Rightarrow> 'w \<Rightarrow> (exn + unit) \<times> 'w"
  sftp_put :: "string \<Rightarrow> string \<Rightarrow> 'w \<Rightarrow> (exn + unit) \<times> 'w"
  sftp_close :: "'w \<Rightarrow> (exn + unit) \<times> 'w"
  transport_close :: "'w \<Rightarrow> (exn + unit) \<times> 'w"

text \<open>The calls as they appear in the trace, each with the exception it raised, if any.\<close>

datatype call =
    TimeSleep real
  | FilesList string nat string "string option"
  | FilesGet "string option" string
  | FilesUpdate "string option" "string option" "string option"
  | FilesCreate string
  | FilesDelete "string option"
  | MediaDownload "string option" "string option" string
  | OsMakedirs string
  | OsGetsize string
  | OsExists string
  | OsRemove string
  | TransportOpen string int
  | LoadPrivateKey string
  | TransportConnect string "string option" "string option"
  | SftpFromTransport
  | SftpNormalize string
  | SftpListdir string
  | SftpStat string
  | SftpMkdir string
  | SftpPut string string
  | SftpClose
  | TransportClose
  | StopFlag bool

datatype event = Log level "frag list" | Call call "exn option"

text \<open>The state threaded through the program: the world and the trace so far.\<close>

type_synonym 'w st = "'w \<times> event list"

definition logger :: "level \<Rightarrow> frag list \<Rightarrow> 'w st \<Rightarrow> 'w st" where
  "logger lv m s = (fst s, snd s @ [Log lv m])"

definition raised :: "exn + 'a \<Rightarrow> exn option" where
  "raised r = (case r of Inl e \<Rightarrow> Some e | Inr _ \<Rightarrow> None)"

definition extern :: "call \<Rightarrow> ('w \<Rightarrow> (exn + 'a) \<times> 'w) \<Rightarrow> 'w st \<Rightarrow> (exn + 'a) \<times> 'w st" where
  "extern c f s = (case f (fst s) of (r, w') \<Rightarrow> (r, (w', snd s @ [Call c (raised r)])))"

definition sleep :: "'w env \<Rightarrow> real \<Rightarrow> 'w st \<Rightarrow> 'w st" where
  "sleep E d s = (time_sleep E d (fst s), snd s @ [Call (TimeSleep d) None])"

section \<open>Configuration (config/settings.py)\<close>

record settings =
  TEMP_DOWNLOAD_DIR :: string
  DRIVE_FOLDER_ID :: string
  ARCHIVE_FOLDER_NAME :: string
  SFTP_HOST :: string
  SFTP_PORT :: int
  SFTP_USERNAME :: string
  POLL_INTERVAL :: int
  ALLOWED_EXTENSIONS :: "string list"
  MAX_FILE_SIZE_MB :: real

section \<open>drive\_handler: the retry helper\<close>

text \<open>
  \<open>_retry(func, retries, base_sleep)\<close>: the loop over \<open>range(1, retries + 1)\<close> is the
  recursion over the list of attempt numbers. Both \<open>except\<close> clauses do the same, up to
  the first word of the warning.
\<close>

fun retry_loop ::
  "'w env \<Rightarrow> ('w st \<Rightarrow> (exn + 'a) \<times> 'w st) \<Rightarrow> nat \<Rightarrow> real \<Rightarrow> nat list \<Rightarrow> exn option \<Rightarrow> 'w st
     \<Rightarrow> (exn + 'a) \<times> 'w st" where
  "retry_loop E func retries base_sleep [] last_exc s =
     (case last_exc of
        None \<Rightarrow> (Inl (TypeError ''exceptions must derive from BaseException''), s)
      | Some e \<Rightarrow> (Inl e, s))"
| "retry_loop E func retries base_sleep (attempt # rest) last_exc s =
     (case func s of
        (Inr v, s1) \<Rightarrow> (Inr v, s1)
      | (Inl e, s1) \<Rightarrow>
          (let s2 = logger WARNING
                 [Str (case e of HttpError _ \<Rightarrow> ''HttpError on attempt '' | _ \<Rightarrow> ''Error on attempt ''),
                  Num (int attempt), Str ''/'', Num (int retries), Str '': '', Exc e] s1
           in if attempt = retries then (Inl e, s2)
              else retry_loop E func retries base_sleep rest (Some e)
                     (sleep E (base_sleep * 2 ^ (attempt - 1)) s2)))"

definition retry_with ::
  "'w env \<Rightarrow> ('w st \<Rightarrow> (exn + 'a) \<times> 'w st) \<Rightarrow> nat \<Rightarrow> real \<Rightarrow> 'w st \<Rightarrow> (exn + 'a) \<times> 'w st" where
  "retry_with E func retries base_sleep s =
     retry_loop E func retries base_sleep [1..<retries + 1] None s"

definition retry :: "'w env \<Rightarrow> ('w st \<Rightarrow> (exn + 'a) \<times> 'w st) \<Rightarrow> 'w st \<Rightarrow> (exn + 'a) \<times> 'w st" where
  "retry E func s = retry_with E func 3 1 s"

section \<open>drive\_handler: listing, download, archive\<close>

definition exn_str :: "exn \<Rightarrow> string" where
  "exn_str e = (case e of HttpError m \<Rightarrow> m | IOError _ m \<Rightarrow> m | TypeError m \<Rightarrow> m | OtherError m \<Rightarrow> m)"

text \<open>\<open>if x\<close> on an optional string: neither \<open>None\<close> nor empty.\<close>

definition truthy :: "string option \<Rightarrow> bool" where
  "truthy x = (case x of None \<Rightarrow> False | Some v \<Rightarrow> v \<noteq> [])"

definition DEFAULT_ARCHIVE_FOLDER_NAME :: string where
  "DEFAULT_ARCHIVE_FOLDER_NAME = ''Sigma_Archive''"

definition ensure_dir :: "'w env \<Rightarrow> string \<Rightarrow> 'w st \<Rightarrow> (exn + unit) \<times> 'w st" where
  "ensure_dir E path s =
     (if path = [] then (Inr (), s) else extern (OsMakedirs path) (os_makedirs E path) s)"

definition list_fields :: string where
  "list_fields = ''nextPageToken, files(id, name, mimeType, size, modifiedTime, parents)''"

definition children_query :: "string \<Rightarrow> string" where
  "children_query folder_id = [CHR 0x27] @ folder_id @ [CHR 0x27] @ '' in parents and trashed = false''"

text \<open>\<open>resp.get("files", [])\<close>\<close>

definition items :: "list_response \<Rightarrow> file_meta list" where
  "items resp = (case resp_files resp of None \<Rightarrow> [] | Some fs \<Rightarrow> fs)"

text \<open>
  The \<open>while True\<close> loop of \<open>list_files_in_folder\<close>: it ends when a page carries no
  continuation token, and not before, so it is a partial function.
\<close>

partial_function (option) list_pages ::
  "'w env \<Rightarrow> string \<Rightarrow> nat \<Rightarrow> file_meta list \<Rightarrow> string option \<Rightarrow> 'w st
     \<Rightarrow> ((exn + file_meta list) \<times> 'w st) option" where
  "list_pages E q page_size files page_token s =
     (case retry E (extern (FilesList q page_size list_fields page_token)
                      (files_list E q page_size list_fields page_token)) s of
        (Inl e, s1) \<Rightarrow> Some (Inl e, s1)
      | (Inr resp, s1) \<Rightarrow>
          (let files' = files @ items resp;
               page_token' = nextPageToken resp
           in if \<not> truthy page_token' then Some (Inr files', s1)
              else list_pages E q page_size files' page_token' s1))"

declare list_pages.simps [code]

definition list_files_in_folder ::
  "'w env \<Rightarrow> string \<Rightarrow> nat \<Rightarrow> string option \<Rightarrow> 'w st \<Rightarrow> ((exn + file_meta list) \<times> 'w st) option" where
  "list_files_in_folder E folder_id page_size extra_query s =
     (let q = children_query folder_id @
                (if truthy extra_query then '' and ('' @ the extra_query @ '')'' else [])
      in case list_pages E q page_size [] None s of
           None \<Rightarrow> None
         | Some (Inl e, s1) \<Rightarrow> Some (Inl e, s1)
         | Some (Inr files, s1) \<Rightarrow>
             Some (Inr files, logger INFO [Str ''Found '', Num (int (length files)),
                                          Str '' file(s) in folder '', Str folder_id] s1))"

definition export_mime :: "string \<Rightarrow> string option" where
  "export_mime mime =
     (if startswith mime ''application/vnd.google-apps.''
      then (if mime = ''application/vnd.google-apps.spreadsheet'' then Some ''text/csv''
            else if mime = ''application/vnd.google-apps.document'' then Some ''application/pdf''
            else if mime = ''application/vnd.google-apps.presentation'' then Some ''application/pdf''
            else Some ''application/pdf'')
      else None)"

text \<open>
  \<open>_do_download\<close>: the request, the local file and the chunk loop of the client library
  are one call to the outside.
\<close>

definition do_download :: "'w env \<Rightarrow> string option \<Rightarrow> string \<Rightarrow> string \<Rightarrow> 'w st \<Rightarrow> (exn + unit) \<times> 'w st" where
  "do_download E file_id mime dest_path s =
     extern (MediaDownload file_id (export_mime mime) dest_path)
       (media_download E file_id (export_mime mime) dest_path) s"

definition download_file_to_path ::
  "'w env \<Rightarrow> file_meta \<Rightarrow> string \<Rightarrow> 'w st \<Rightarrow> (exn + string) \<times> 'w st" where
  "download_file_to_path E file_meta dest_path s =
     (let file_id = m_id file_meta;
          name = m_name file_meta;
          mime = (case m_mimeType file_meta of None \<Rightarrow> [] | Some m \<Rightarrow> m)
      in case ensure_dir E (dirname dest_path) s of
           (Inl e, s1) \<Rightarrow> (Inl e, s1)
         | (Inr _, s1) \<Rightarrow>
             (let s2 = logger INFO [Str ''Downloading '', Opt name, Str '' (id='', Opt file_id,
                                    Str '', mime='', Str mime, Str '') -> '', Str dest_path] s1
              in case retry E (do_download E file_id mime dest_path) s2 of
                   (Inl e, s3) \<Rightarrow> (Inl e, s3)
                 | (Inr _, s3) \<Rightarrow>
                     (Inr dest_path,
                      logger INFO [Str ''Downloaded '', Opt name, Str '' -> '', Str dest_path] s3)))"

definition folder_query :: "string \<Rightarrow> string" where
  "folder_query folder_name =
     ''name = '' @ [CHR 0x27] @ folder_name @ [CHR 0x27] @
     '' and mimeType = '' @ [CHR 0x27] @ ''application/vnd.google-apps.folder'' @ [CHR 0x27] @
     '' and '' @ [CHR 0x27] @ ''root'' @ [CHR 0x27] @ '' in parents and trashed = false''"

definition find_folder_in_root :: "'w env \<Rightarrow> string \<Rightarrow> 'w st \<Rightarrow> (exn + string option) \<times> 'w st" where
  "find_folder_in_root E folder_name s =
     (case retry E (extern (FilesList (folder_query folder_name) 10 ''files(id, name)'' None)
                      (files_list E (folder_query folder_name) 10 ''files(id, name)'' None)) s of
        (Inl e, s1) \<Rightarrow> (Inl e, s1)
      | (Inr resp, s1) \<Rightarrow>
          (case items resp of
             [] \<Rightarrow> (Inr None, s1)
           | item # _ \<Rightarrow> (Inr (m_id item), s1)))"

definition create_folder_in_root :: "'w env \<Rightarrow> string \<Rightarrow> 'w st \<Rightarrow> (exn + string option) \<times> 'w st" where
  "create_folder_in_root E folder_name s =
     (case retry E (extern (FilesCreate folder_name) (files_create E folder_name)) s of
        (Inl e, s1) \<Rightarrow> (Inl e, s1)
      | (Inr fid, s1) \<Rightarrow>
          (Inr fid, logger INFO [Str ''Created Drive folder '', Str folder_name, Str '' (id='', Opt fid,
                                 Str '') in root''] s1))"

definition get_or_create_archive_folder ::
  "'w env \<Rightarrow> string option \<Rightarrow> 'w st \<Rightarrow> (exn + string option) \<times> 'w st" where
  "get_or_create_archive_folder E folder_name s =
     (let name = (if truthy folder_name then the folder_name else DEFAULT_ARCHIVE_FOLDER_NAME)
      in case find_folder_in_root E name s of
           (Inl e, s1) \<Rightarrow> (Inl e, s1)
         | (Inr fid, s1) \<Rightarrow>
             if truthy fid
             then (Inr fid, logger DEBUG [Str ''Found existing archive folder '', Str name,
                                          Str '' (id='', Opt fid, Str '')''] s1)
             else create_folder_in_root E name s1)"

text \<open>\<open>",".join(parents)\<close>\<close>

fun join_comma :: "string list \<Rightarrow> string" where
  "join_comma [] = []"
| "join_comma [x] = x"
| "join_comma (x # y # ys) = x @ '','' @ join_comma (y # ys)"

text \<open>
  \<open>move_file_to_archive\<close>: the body of the \<open>try\<close>, and around it the handler that turns
  every exception into \<open>False\<close>.
\<close>

definition move_file_to_archive_try ::
  "'w env \<Rightarrow> string option \<Rightarrow> string option \<Rightarrow> 'w st \<Rightarrow> (exn + bool) \<times> 'w st" where
  "move_file_to_archive_try E file_id archive_folder_name s =
     (case get_or_create_archive_folder E archive_folder_name s of
        (Inl e, s1) \<Rightarrow> (Inl e, s1)
      | (Inr archive_id, s1) \<Rightarrow>
          (case retry E (extern (FilesGet file_id ''id, name, parents'')
                           (files_get E file_id ''id, name, parents'')) s1 of
             (Inl e, s2) \<Rightarrow> (Inl e, s2)
           | (Inr meta, s2) \<Rightarrow>
               (let parents = (case m_parents meta of None \<Rightarrow> [] | Some ps \<Rightarrow> ps)
                in if (case archive_id of None \<Rightarrow> False | Some a \<Rightarrow> a \<in> set parents)
                   then (Inr True, logger INFO [Str ''File '', Opt file_id,
                                                Str '' already in archive folder '', Opt archive_id] s2)
                   else (let remove_parents = (if parents \<noteq> [] then Some (join_comma parents) else None);
                             remove_arg = (if truthy remove_parents then remove_parents else None)
                         in case retry E (extern (FilesUpdate file_id archive_id remove_arg)
                                            (files_update E file_id archive_id remove_arg)) s2 of
                              (Inl e, s3) \<Rightarrow> (Inl e, s3)
                            | (Inr _, s3) \<Rightarrow>
                                (Inr True, logger INFO [Str ''Moved file id='', Opt file_id,
                                                        Str '' to archive folder id='', Opt archive_id] s3)))))"

definition move_file_to_archive ::
  "'w env \<Rightarrow> string option \<Rightarrow> string option \<Rightarrow> 'w st \<Rightarrow> bool \<times> 'w st" where
  "move_file_to_archive E file_id archive_folder_name s =
     (case move_file_to_archive_try E file_id archive_folder_name s of
        (Inr b, s1) \<Rightarrow> (b, s1)
      | (Inl e, s1) \<Rightarrow>
          (False, logger ERROR [Str ''Failed to move file '', Opt file_id, Str '' to archive: '', Exc e] s1))"

definition delete_file :: "'w env \<Rightarrow> string option \<Rightarrow> 'w st \<Rightarrow> (exn + unit) \<times> 'w st" where
  "delete_file E file_id s =
     (case retry E (extern (FilesDelete file_id) (files_delete E file_id)) s of
        (Inl e, s1) \<Rightarrow> (Inl e, s1)
      | (Inr _, s1) \<Rightarrow> (Inr (), logger INFO [Str ''Deleted file id='', Opt file_id, Str '' from Drive''] s1))"

text \<open>The result dictionaries \<open>{id, name, path, status, message}\<close>.\<close>

record download_result =
  r_id :: "string option"
  r_name :: string
  r_path :: string
  r_status :: string
  r_message :: string

text \<open>
  The \<open>for f in files\<close> loop of \<open>download_all_from_folder\<close>. A file without a name makes
  \<open>fname.replace\<close> (or \<open>fname.startswith\<close>) raise outside the \<open>try\<close>.
\<close>

fun download_each ::
  "'w env \<Rightarrow> string \<Rightarrow> bool \<Rightarrow> string option \<Rightarrow> file_meta list \<Rightarrow> download_result list \<Rightarrow> 'w st
     \<Rightarrow> (exn + download_result list) \<times> 'w st" where
  "download_each E dest_dir delete_after_download allowed_name_prefix [] results s = (Inr results, s)"
| "download_each E dest_dir delete_after_download allowed_name_prefix (f # fs) results s =
     (let fid = m_id f in
      case m_name f of
        None \<Rightarrow> (Inl (OtherError ''AttributeError''), s)
      | Some fname \<Rightarrow>
          if truthy allowed_name_prefix \<and> \<not> startswith fname (the allowed_name_prefix)
          then download_each E dest_dir delete_after_download allowed_name_prefix fs results
                 (logger DEBUG [Str ''Skipping '', Str fname, Str '' since it does not match prefix '',
                                Opt allowed_name_prefix] s)
          else
            (let safe_name = replace_char CHR ''/'' CHR ''_'' fname;
                 dest_path = path_join dest_dir safe_name
             in case (case download_file_to_path E f dest_path s of
                        (Inl e, s1) \<Rightarrow> (Inl e, s1)
                      | (Inr _, s1) \<Rightarrow>
                          if delete_after_download then delete_file E fid s1 else (Inr (), s1)) of
                  (Inr _, s2) \<Rightarrow>
                    download_each E dest_dir delete_after_download allowed_name_prefix fs
                      (results @ [\<lparr>r_id = fid, r_name = fname, r_path = dest_path,
                                    r_status = ''OK'', r_message = []\<rparr>]) s2
                | (Inl e, s2) \<Rightarrow>
                    download_each E dest_dir delete_after_download allowed_name_prefix fs
                      (results @ [\<lparr>r_id = fid, r_name = fname, r_path = dest_path,
                                    r_status = ''ERROR'', r_message = exn_str e\<rparr>])
                      (logger ERROR [Str ''Failed to handle file '', Str fname, Str '' ('', Opt fid,
                                     Str ''): '', Exc e] s2)))"

definition download_all_from_folder ::
  "'w env \<Rightarrow> string \<Rightarrow> string \<Rightarrow> bool \<Rightarrow> string option \<Rightarrow> 'w st
     \<Rightarrow> ((exn + download_result list) \<times> 'w st) option" where
  "download_all_from_folder E folder_id dest_dir delete_after_download allowed_name_prefix s =
     (case list_files_in_folder E folder_id 100 None s of
        None \<Rightarrow> None
      | Some (Inl e, s1) \<Rightarrow> Some (Inl e, s1)
      | Some (Inr files, s1) \<Rightarrow>
          Some (download_each E dest_dir delete_after_download allowed_name_prefix files [] s1))"

section \<open>sftp\_handler\<close>

text \<open>
  The handler object. \<open>transport\<close> and \<open>sftp\<close> say whether \<open>_transport\<close> and \<open>_sftp\<close> are
  set; the objects themselves live in the world.
\<close>

record sftp_handler =
  host :: string
  port :: int
  username :: string
  password :: "string option"
  key_file :: "string option"
  transport :: bool
  sftp :: bool
  home :: "string option"

definition connect :: "'w env \<Rightarrow> sftp_handler \<Rightarrow> 'w st \<Rightarrow> (exn + unit) \<times> sftp_handler \<times> 'w st" where
  "connect E h s0 =
     (let s1 = logger INFO [Str ''SFTP: connecting to '', Str (host h), Str '':'', Num (port h),
                            Str '' as '', Str (username h), Str '' ...''] s0
      in case extern (TransportOpen (host h) (port h)) (transport_open E (host h) (port h)) s1 of
           (Inl e, s2) \<Rightarrow> (Inl e, h, s2)
         | (Inr _, s2) \<Rightarrow>
             (let h1 = h\<lparr>transport := True\<rparr> in
              case (if truthy (key_file h)
                    then (case extern (LoadPrivateKey (the (key_file h)))
                                 (load_private_key E (the (key_file h))) s2 of
                            (Inl e, s3) \<Rightarrow> (Inl e, s3)
                          | (Inr _, s3) \<Rightarrow>
                              extern (TransportConnect (username h) None (key_file h))
                                (transport_connect E (username h) None (key_file h)) s3)
                    else extern (TransportConnect (username h) (password h) None)
                           (transport_connect E (username h) (password h) None) s2) of
                (Inl e, s4) \<Rightarrow> (Inl e, h1, s4)
              | (Inr _, s4) \<Rightarrow>
                  (case extern SftpFromTransport (sftp_from_transport E) s4 of
                     (Inl e, s5) \<Rightarrow> (Inl e, h1, s5)
                   | (Inr _, s5) \<Rightarrow>
                       (let h2 = h1\<lparr>sftp := True\<rparr> in
                        case (case extern (SftpNormalize ''.'') (sftp_normalize E ''.'') s5 of
                                (Inl e, s6) \<Rightarrow> (None, s6)
                              | (Inr p, s6) \<Rightarrow> (Some p, s6)) of
                          (hm, s6) \<Rightarrow>
                            (let h3 = h2\<lparr>home := hm\<rparr>;
                                 s7 = logger INFO [Str ''SFTP: connected.''] s6
                             in if truthy hm
                                then (let s8 = logger INFO [Str ''SFTP: home = '', Opt hm] s7
                                      in case extern (SftpListdir (the hm)) (sftp_listdir E (the hm)) s8 of
                                           (Inr listing, s9) \<Rightarrow>
                                             (Inr (), h3, logger INFO [Str ''SFTP: home listing = '', Lst listing] s9)
                                         | (Inl e, s9) \<Rightarrow>
                                             (Inr (), h3, logger WARNING [Str ''SFTP: cannot list home: '', Exc e] s9))
                                else (Inr (), h3, s7))))))"

text \<open>
  \<open>close\<close>: the \<open>finally\<close> clause closes the transport whatever closing the channel did;
  an exception of the \<open>finally\<close> clause replaces the one of the \<open>try\<close>.
\<close>

definition close :: "'w env \<Rightarrow> sftp_handler \<Rightarrow> 'w st \<Rightarrow> (exn + unit) \<times> 'w st" where
  "close E h s =
     (case (if sftp h then extern SftpClose (sftp_close E) s else (Inr (), s)) of
        (r1, s1) \<Rightarrow>
          (case (if transport h then extern TransportClose (transport_close E) s1 else (Inr (), s1)) of
             (Inl e2, s2) \<Rightarrow> (Inl e2, s2)
           | (Inr _, s2) \<Rightarrow>
               (case r1 of
                  Inl e1 \<Rightarrow> (Inl e1, s2)
                | Inr _ \<Rightarrow> (Inr (), logger INFO [Str ''SFTP: disconnected.''] s2))))"

definition aws_intended_dir :: "sftp_handler \<Rightarrow> string" where
  "aws_intended_dir h = ''/vendor-automation-sftp-storage-live-me-1/home/'' @ username h @ ''/catalog''"

definition get_auto_remote_dir :: "sftp_handler \<Rightarrow> 'w st \<Rightarrow> string \<times> 'w st" where
  "get_auto_remote_dir h s =
     (let intended = aws_intended_dir h
      in if truthy (home h)
         then (let remapped = rstrip CHR ''/'' (the (home h)) @ ''/catalog''
               in (remapped, logger INFO [Str ''SFTP: auto remote dir = '', Str remapped,
                                          Str '' (remapped from AWS full path)''] s))
         else (intended, logger INFO [Str ''SFTP: auto remote dir = '', Str intended,
                                      Str '' (no remap)''] s))"

text \<open>
  \<open>makedirs\<close>: the loop over the path's segments carries the accumulated path.
  \<open>except IOError\<close> around \<open>stat\<close> lets every other exception pass; the inner handler
  re-raises an \<open>IOError\<close> whose \<open>errno\<close> is \<open>EACCES\<close> and logs every other exception.
\<close>

definition is_eacces :: "exn \<Rightarrow> bool" where
  "is_eacces ee = (case ee of IOError (Some n) _ \<Rightarrow> n = EACCES | _ \<Rightarrow> False)"

definition is_ioerror :: "exn \<Rightarrow> bool" where
  "is_ioerror e = (case e of IOError _ _ \<Rightarrow> True | _ \<Rightarrow> False)"

definition next_path :: "bool \<Rightarrow> string \<Rightarrow> string \<Rightarrow> string" where
  "next_path absolute path p =
     (if path \<noteq> [] then path @ ''/'' @ p else (if absolute then ''/'' @ p else p))"

fun makedirs_loop :: "'w env \<Rightarrow> bool \<Rightarrow> string list \<Rightarrow> string \<Rightarrow> 'w st \<Rightarrow> (exn + unit) \<times> 'w st" where
  "makedirs_loop E absolute [] path s = (Inr (), s)"
| "makedirs_loop E absolute (p # ps) path0 s =
     (let path = next_path absolute path0 p
      in case extern (SftpStat path) (sftp_stat E path) s of
           (Inr _, s1) \<Rightarrow> makedirs_loop E absolute ps path s1
         | (Inl e, s1) \<Rightarrow>
             if is_ioerror e
             then (case extern (SftpMkdir path) (sftp_mkdir E path) s1 of
                     (Inr _, s2) \<Rightarrow>
                       makedirs_loop E absolute ps path (logger INFO [Str ''SFTP: mkdir '', Str path] s2)
                   | (Inl ee, s2) \<Rightarrow>
                       if is_eacces ee then (Inl ee, s2)
                       else makedirs_loop E absolute ps path
                              (logger WARNING [Str ''SFTP: mkdir failed for '', Str path, Str '': '', Exc ee] s2))
             else (Inl e, s1))"

definition path_parts :: "string \<Rightarrow> string list" where
  "path_parts remote_dir = filter (\<lambda>p. p \<noteq> []) (split_on CHR ''/'' (strip CHR ''/'' remote_dir))"

definition makedirs :: "'w env \<Rightarrow> string \<Rightarrow> 'w st \<Rightarrow> (exn + unit) \<times> 'w st" where
  "makedirs E remote_dir s =
     (if remote_dir = [] \<or> remote_dir \<in> set [''/'', ''.'', ''~''] then (Inr (), s)
      else makedirs_loop E (startswith remote_dir ''/'') (path_parts remote_dir) [] s)"

definition upload_to_auto_dir :: "'w env \<Rightarrow> sftp_handler \<Rightarrow> string \<Rightarrow> 'w st \<Rightarrow> (exn + unit) \<times> 'w st" where
  "upload_to_auto_dir E h local_path s =
     (case get_auto_remote_dir h s of
        (remote_dir, s1) \<Rightarrow>
          (let fname = basename local_path;
               target = rstrip CHR ''/'' remote_dir @ ''/'' @ fname;
               tdir = dirname target
           in case (if tdir \<noteq> [] \<and> tdir \<notin> set [''.'', ''/''] then makedirs E tdir s1 else (Inr (), s1)) of
                (Inl e, s2) \<Rightarrow> (Inl e, s2)
              | (Inr _, s2) \<Rightarrow>
                  (let s3 = logger INFO [Str ''SFTP: uploading '', Str local_path, Str '' -> '', Str target] s2
                   in case extern (SftpPut local_path target) (sftp_put E local_path target) s3 of
                        (Inl e, s4) \<Rightarrow> (Inl e, s4)
                      | (Inr _, s4) \<Rightarrow> (Inr (), logger INFO [Str ''SFTP: upload OK''] s4))))"

section \<open>watcher\<close>

record sftp_conf =
  conf_host :: "string option"
  conf_port :: "int option"
  conf_username :: "string option"
  conf_password :: "string option"
  conf_key_file :: "string option"

record watcher =
  sftp_conf :: sftp_conf
  temp_dir :: string

definition filter_allowed :: "settings \<Rightarrow> string \<Rightarrow> bool" where
  "filter_allowed cfg name =
     (if ALLOWED_EXTENSIONS cfg = [] then True
      else (let ext = lower (lstrip CHR ''.'' (snd (splitext name)))
            in ext \<in> set (map lower (ALLOWED_EXTENSIONS cfg))))"

text \<open>The first loop of \<open>run_once\<close>: which downloaded files go on to the upload.\<close>

fun select_files ::
  "'w env \<Rightarrow> settings \<Rightarrow> download_result list \<Rightarrow> download_result list \<Rightarrow> 'w st
     \<Rightarrow> download_result list \<times> 'w st" where
  "select_files E cfg [] files_ok s = (files_ok, s)"
| "select_files E cfg (f # fs) files_ok s =
     (if r_status f \<noteq> ''OK''
      then select_files E cfg fs files_ok
             (logger WARNING [Str ''Skipping errored file '', Str (r_name f), Str '': '', Str (r_message f)] s)
      else if \<not> filter_allowed cfg (r_name f)
      then select_files E cfg fs files_ok
             (logger INFO [Str ''Skipping disallowed extension: '', Str (r_name f)] s)
      else if MAX_FILE_SIZE_MB cfg \<noteq> 0
      then (case extern (OsGetsize (r_path f)) (os_getsize E (r_path f)) s of
              (Inr sz, s1) \<Rightarrow>
                (let sz_mb = real_of_int sz / (1024 * 1024)
                 in if sz_mb > MAX_FILE_SIZE_MB cfg
                    then select_files E cfg fs files_ok
                           (logger WARNING [Str ''Skipping '', Str (r_name f), Str '' - size '', Flt sz_mb,
                                            Str ''MB > limit '', Flt (MAX_FILE_SIZE_MB cfg), Str ''MB''] s1)
                    else select_files E cfg fs (files_ok @ [f]) s1)
            | (Inl e, s1) \<Rightarrow>
                select_files E cfg fs (files_ok @ [f])
                  (logger WARNING [Str ''Cannot stat size for '', Str (r_path f), Str '': '', Exc e] s1))
      else select_files E cfg fs (files_ok @ [f]) s)"

text \<open>One pass of the second loop: upload, archive, remove the local copy.\<close>

definition remove_temp :: "'w env \<Rightarrow> string \<Rightarrow> 'w st \<Rightarrow> 'w st" where
  "remove_temp E local_path s =
     (case os_exists E local_path (fst s) of
        (ex, w1) \<Rightarrow>
          (let s1 = (w1, snd s @ [Call (OsExists local_path) None])
           in if ex
              then (case extern (OsRemove local_path) (os_remove E local_path) s1 of
                      (Inr _, s2) \<Rightarrow> logger INFO [Str ''Temp: removed '', Str local_path] s2
                    | (Inl e, s2) \<Rightarrow>
                        logger ERROR [Str ''Temp: failed to remove '', Str local_path, Str '': '', Exc e] s2)
              else s1))"

definition upload_one ::
  "'w env \<Rightarrow> sftp_handler \<Rightarrow> string option \<Rightarrow> download_result \<Rightarrow> 'w st \<Rightarrow> 'w st" where
  "upload_one E h archive_name f s =
     (let local_path = r_path f
      in case upload_to_auto_dir E h local_path s of
           (Inl e, s1) \<Rightarrow> logger ERROR [Str ''Upload failed for '', Str (r_name f), Str '': '', Exc e] s1
         | (Inr _, s1) \<Rightarrow>
             (case move_file_to_archive E (r_id f) archive_name s1 of
                (moved, s2) \<Rightarrow>
                  remove_temp E local_path
                    (if moved then logger INFO [Str ''Drive: moved '', Str (r_name f), Str '' to Archive.''] s2
                     else logger WARNING [Str ''Drive: could not move '', Str (r_name f),
                                          Str '' to Archive.''] s2)))"

fun upload_each ::
  "'w env \<Rightarrow> sftp_handler \<Rightarrow> string option \<Rightarrow> download_result list \<Rightarrow> 'w st \<Rightarrow> 'w st" where
  "upload_each E h archive_name [] s = s"
| "upload_each E h archive_name (f # fs) s = upload_each E h archive_name fs (upload_one E h archive_name f s)"

text \<open>\<open>str.strip()\<close>: white space at both ends.\<close>

definition is_space :: "char \<Rightarrow> bool" where
  "is_space c = (c \<in> set [CHR '' '', CHR 0x09, CHR 0x0A, CHR 0x0B, CHR 0x0C, CHR 0x0D])"

definition strip_ws :: "string \<Rightarrow> string" where
  "strip_ws s = rev (dropWhile is_space (rev (dropWhile is_space s)))"

definition new_handler :: "settings \<Rightarrow> watcher \<Rightarrow> sftp_handler" where
  "new_handler cfg W =
     \<lparr>host = (case conf_host (sftp_conf W) of None \<Rightarrow> SFTP_HOST cfg | Some v \<Rightarrow> v),
      port = (case conf_port (sftp_conf W) of
                None \<Rightarrow> (if SFTP_PORT cfg \<noteq> 0 then SFTP_PORT cfg else 22) | Some v \<Rightarrow> v),
      username = (case conf_username (sftp_conf W) of None \<Rightarrow> SFTP_USERNAME cfg | Some v \<Rightarrow> v),
      password = (if truthy (conf_password (sftp_conf W)) then conf_password (sftp_conf W) else None),
      key_file = (if truthy (conf_key_file (sftp_conf W)) then conf_key_file (sftp_conf W) else None),
      transport = False, sftp = False, home = None\<rparr>"

definition run_once ::
  "'w env \<Rightarrow> settings \<Rightarrow> watcher \<Rightarrow> string option \<Rightarrow> string option \<Rightarrow> 'w st
     \<Rightarrow> ((exn + unit) \<times> 'w st) option" where
  "run_once E cfg W drive_folder_id archive_folder_name s =
     (let folder_id = strip_ws (if truthy drive_folder_id then the drive_folder_id else DRIVE_FOLDER_ID cfg)
      in if folder_id = []
         then Some (Inr (), logger WARNING [Str ''Watcher: Drive Folder ID is empty. Skipping.''] s)
         else
           (case download_all_from_folder E folder_id (temp_dir W) False None
                   (logger INFO [Str ''Watcher: checking Drive for new files...''] s) of
              None \<Rightarrow> None
            | Some (Inl e, s2) \<Rightarrow> Some (Inl e, s2)
            | Some (Inr files, s2) \<Rightarrow>
                (case select_files E cfg files [] s2 of
                   (files_ok, s3) \<Rightarrow>
                     if files_ok = []
                     then Some (Inr (), logger INFO [Str ''Watcher: no new files.''] s3)
                     else
                       (case connect E (new_handler cfg W) s3 of
                          (Inl e, h, s4) \<Rightarrow> Some (Inl e, s4)
                        | (Inr _, h, s4) \<Rightarrow>
                            Some (close E h
                                    (upload_each E h
                                       (if truthy archive_folder_name then archive_folder_name
                                        else Some (ARCHIVE_FOLDER_NAME cfg))
                                       files_ok s4))))))"

text \<open>
  \<open>start_loop\<close>. The stop flag is a callable the caller passes, or \<open>None\<close>; it reads the
  world. The inner \<open>for\<close> loop sleeps one second at a time; the outer \<open>while True\<close> ends
  only when the flag is seen set at its head, so it is a partial function.
\<close>

definition check_stop :: "('w \<Rightarrow> bool) option \<Rightarrow> 'w st \<Rightarrow> bool \<times> 'w st" where
  "check_stop stop_flag s =
     (case stop_flag of
        None \<Rightarrow> (False, s)
      | Some f \<Rightarrow> (f (fst s), (fst s, snd s @ [Call (StopFlag (f (fst s))) None])))"

fun sleep_interval :: "'w env \<Rightarrow> ('w \<Rightarrow> bool) option \<Rightarrow> nat \<Rightarrow> 'w st \<Rightarrow> 'w st" where
  "sleep_interval E stop_flag 0 s = s"
| "sleep_interval E stop_flag (Suc n) s =
     (case check_stop stop_flag s of
        (stop, s1) \<Rightarrow> if stop then s1 else sleep_interval E stop_flag n (sleep E 1 s1))"

partial_function (option) loop_body ::
  "'w env \<Rightarrow> ('w st \<Rightarrow> ((exn + unit) \<times> 'w st) option) \<Rightarrow> ('w \<Rightarrow> bool) option \<Rightarrow> nat \<Rightarrow> 'w st
     \<Rightarrow> 'w st option" where
  "loop_body E cycle stop_flag interval s =
     (case check_stop stop_flag s of
        (stop, s1) \<Rightarrow>
          if stop then Some (logger INFO [Str ''Watcher: stop requested. exiting loop.''] s1)
          else Option.bind (cycle s1)
                 (\<lambda>(r, s2).
                    loop_body E cycle stop_flag interval
                      (sleep_interval E stop_flag interval
                         (case r of
                            Inl e \<Rightarrow> logger ERROR [Str ''Watcher: cycle failed with exception.'', Exc e] s2
                          | Inr _ \<Rightarrow> s2))))"

declare loop_body.simps [code]

definition start_loop ::
  "'w env \<Rightarrow> settings \<Rightarrow> watcher \<Rightarrow> string option \<Rightarrow> ('w \<Rightarrow> bool) option \<Rightarrow> int option \<Rightarrow> 'w st
     \<Rightarrow> 'w st option" where
  "start_loop E cfg W drive_folder_id stop_flag poll_interval s =
     (let interval = (case poll_interval of
                        Some p \<Rightarrow> if p \<noteq> 0 then p else if POLL_INTERVAL cfg \<noteq> 0 then POLL_INTERVAL cfg else 30
                      | None \<Rightarrow> if POLL_INTERVAL cfg \<noteq> 0 then POLL_INTERVAL cfg else 30)
      in case loop_body E (run_once E cfg W drive_folder_id None) stop_flag (nat interval)
                (logger INFO [Str ''Watcher: loop started.''] s) of
           None \<Rightarrow> None
         | Some s1 \<Rightarrow> Some (logger INFO [Str ''Watcher: loop stopped.''] s1))"

section \<open>A simulated world\<close>

text \<open>
  A small Drive, a local file system and an SFTP server, to run the program on concrete
  inputs. The Drive keeps its files with their parents; a listing is cut into pages of at most
  \<open>page_cap\<close> entries and the continuation token counts the entries already served.
  \<open>faults\<close> lists calls that are to fail, each once, with the exception to raise.
\<close>

record dfile =
  d_id :: string
  d_name :: string
  d_mimeType :: string
  d_size :: int
  d_parents :: "string list"

record sim =
  drive :: "dfile list"
  page_cap :: nat
  local_files :: "(string \<times> int) list"
  remote_home :: "string option"
  remote_dirs :: "string list"
  remote_files :: "(string \<times> int) list"
  connections :: nat
  clock :: real
  faults :: "(call \<times> exn) list"

definition inject :: "call \<Rightarrow> (sim \<Rightarrow> (exn + 'a) \<times> sim) \<Rightarrow> sim \<Rightarrow> (exn + 'a) \<times> sim" where
  "inject c f w =
     (case map_of (faults w) c of
        Some e \<Rightarrow> (Inl e, w\<lparr>faults := remove1 (c, e) (faults w)\<rparr>)
      | None \<Rightarrow> f w)"

definition folder_mime :: string where
  "folder_mime = ''application/vnd.google-apps.folder''"

definition to_meta :: "dfile \<Rightarrow> file_meta" where
  "to_meta d = \<lparr>m_id = Some (d_id d), m_name = Some (d_name d), m_mimeType = Some (d_mimeType d),
                m_parents = Some (d_parents d)\<rparr>"

definition matches :: "string \<Rightarrow> dfile \<Rightarrow> bool" where
  "matches q d =
     (list_ex (\<lambda>p. q = children_query p) (d_parents d) \<or>
      (q = folder_query (d_name d) \<and> d_mimeType d = folder_mime \<and> ''root'' \<in> set (d_parents d)))"

definition sim_list :: "string \<Rightarrow> nat \<Rightarrow> string option \<Rightarrow> sim \<Rightarrow> (exn + list_response) \<times> sim" where
  "sim_list q page_size tok w =
     (let found = filter (matches q) (drive w);
          start = (case tok of None \<Rightarrow> 0 | Some t \<Rightarrow> length t);
          n = min page_size (page_cap w)
      in (Inr \<lparr>resp_files = Some (map to_meta (take n (drop start found))),
               nextPageToken = (if start + n < length found then Some (replicate (start + n) CHR ''+'')
                                else None)\<rparr>, w))"

definition lookup_file :: "string option \<Rightarrow> sim \<Rightarrow> dfile option" where
  "lookup_file fid w = (case fid of None \<Rightarrow> None | Some i \<Rightarrow> find (\<lambda>d. d_id d = i) (drive w))"

definition sim_get :: "string option \<Rightarrow> sim \<Rightarrow> (exn + file_meta) \<times> sim" where
  "sim_get fid w =
     (case lookup_file fid w of
        None \<Rightarrow> (Inl (HttpError ''404 File not found''), w)
      | Some d \<Rightarrow> (Inr (to_meta d), w))"

definition new_parents :: "string option \<Rightarrow> string option \<Rightarrow> string list \<Rightarrow> string list" where
  "new_parents add rem ps =
     (let kept = filter (\<lambda>p. p \<notin> set (case rem of None \<Rightarrow> [] | Some r \<Rightarrow> split_on CHR '','' r)) ps
      in case add of None \<Rightarrow> kept | Some a \<Rightarrow> if a \<in> set kept then kept else kept @ [a])"

definition sim_update :: "string option \<Rightarrow> string option \<Rightarrow> string option \<Rightarrow> sim \<Rightarrow> (exn + unit) \<times> sim" where
  "sim_update fid add rem w =
     (case lookup_file fid w of
        None \<Rightarrow> (Inl (HttpError ''404 File not found''), w)
      | Some d \<Rightarrow>
          (Inr (), w\<lparr>drive := map (\<lambda>x. if d_id x = d_id d
                                         then x\<lparr>d_parents := new_parents add rem (d_parents x)\<rparr> else x)
                                  (drive w)\<rparr>))"

definition sim_create :: "string \<Rightarrow> sim \<Rightarrow> (exn + string option) \<times> sim" where
  "sim_create name w =
     (Inr (Some (''folder:'' @ name)),
      w\<lparr>drive := drive w @ [\<lparr>d_id = ''folder:'' @ name, d_name = name, d_mimeType = folder_mime,
                             d_size = 0, d_parents = [''root'']\<rparr>]\<rparr>)"

definition sim_delete :: "string option \<Rightarrow> sim \<Rightarrow> (exn + unit) \<times> sim" where
  "sim_delete fid w =
     (case lookup_file fid w of
        None \<Rightarrow> (Inl (HttpError ''404 File not found''), w)
      | Some d \<Rightarrow> (Inr (), w\<lparr>drive := filter (\<lambda>x. d_id x \<noteq> d_id d) (drive w)\<rparr>))"

definition write_file :: "string \<Rightarrow> int \<Rightarrow> (string \<times> int) list \<Rightarrow> (string \<times> int) list" where
  "write_file p n fs = filter (\<lambda>x. fst x \<noteq> p) fs @ [(p, n)]"

definition sim_download :: "string option \<Rightarrow> string \<Rightarrow> sim \<Rightarrow> (exn + unit) \<times> sim" where
  "sim_download fid dest w =
     (case lookup_file fid w of
        None \<Rightarrow> (Inl (HttpError ''404 File not found''), w)
      | Some d \<Rightarrow> (Inr (), w\<lparr>local_files := write_file dest (d_size d) (local_files w)\<rparr>))"

definition ENOENT :: nat where
  "ENOENT = 2"

definition sim_getsize :: "string \<Rightarrow> sim \<Rightarrow> (exn + int) \<times> sim" where
  "sim_getsize p w =
     (case map_of (local_files w) p of
        None \<Rightarrow> (Inl (IOError (Some ENOENT) ''No such file or directory''), w)
      | Some n \<Rightarrow> (Inr n, w))"

definition sim_remove :: "string \<Rightarrow> sim \<Rightarrow> (exn + unit) \<times> sim" where
  "sim_remove p w =
     (case map_of (local_files w) p of
        None \<Rightarrow> (Inl (IOError (Some ENOENT) ''No such file or directory''), w)
      | Some n \<Rightarrow> (Inr (), w\<lparr>local_files := filter (\<lambda>x. fst x \<noteq> p) (local_files w)\<rparr>))"

definition sim_normalize :: "sim \<Rightarrow> (exn + string) \<times> sim" where
  "sim_normalize w =
     (case remote_home w of None \<Rightarrow> (Inl (IOError None ''Failure''), w) | Some h \<Rightarrow> (Inr h, w))"

definition sim_stat :: "string \<Rightarrow> sim \<Rightarrow> (exn + unit) \<times> sim" where
  "sim_stat p w =
     (if p \<in> set (remote_dirs w) then (Inr (), w)
      else (Inl (IOError (Some ENOENT) ''No such file''), w))"

definition sim_mkdir :: "string \<Rightarrow> sim \<Rightarrow> (exn + unit) \<times> sim" where
  "sim_mkdir p w =
     (if p \<in> set (remote_dirs w) then (Inl (IOError None ''Failure''), w)
      else (Inr (), w\<lparr>remote_dirs := remote_dirs w @ [p]\<rparr>))"

definition sim_put :: "string \<Rightarrow> string \<Rightarrow> sim \<Rightarrow> (exn + unit) \<times> sim" where
  "sim_put l r w =
     (case map_of (local_files w) l of
        None \<Rightarrow> (Inl (IOError (Some ENOENT) ''No such file or directory''), w)
      | Some n \<Rightarrow>
          if dirname r \<in> set (remote_dirs w)
          then (Inr (), w\<lparr>remote_files := write_file r n (remote_files w)\<rparr>)
          else (Inl (IOError (Some ENOENT) ''No such file''), w))"

definition sim_env :: "sim env" where
  "sim_env = \<lparr>
     time_sleep = (\<lambda>d w. w\<lparr>clock := clock w + d\<rparr>),
     files_list = (\<lambda>q n f t. inject (FilesList q n f t) (sim_list q n t)),
     files_get = (\<lambda>i f. inject (FilesGet i f) (sim_get i)),
     files_update = (\<lambda>i a r. inject (FilesUpdate i a r) (sim_update i a r)),
     files_create = (\<lambda>n. inject (FilesCreate n) (sim_create n)),
     files_delete = (\<lambda>i. inject (FilesDelete i) (sim_delete i)),
     media_download = (\<lambda>i m p. inject (MediaDownload i m p) (sim_download i p)),
     os_makedirs = (\<lambda>p. inject (OsMakedirs p) (\<lambda>w. (Inr (), w))),
     os_getsize = (\<lambda>p. inject (OsGetsize p) (sim_getsize p)),
     os_exists = (\<lambda>p w. (map_of (local_files w) p \<noteq> None, w)),
     os_remove = (\<lambda>p. inject (OsRemove p) (sim_remove p)),
     transport_open = (\<lambda>h p. inject (TransportOpen h p) (\<lambda>w. (Inr (), w\<lparr>connections := connections w + 1\<rparr>))),
     load_private_key = (\<lambda>k. inject (LoadPrivateKey k) (\<lambda>w. (Inr (), w))),
     transport_connect = (\<lambda>u p k. inject (TransportConnect u p k) (\<lambda>w. (Inr (), w))),
     sftp_from_transport = inject SftpFromTransport (\<lambda>w. (Inr (), w)),
     sftp_normalize = (\<lambda>p. inject (SftpNormalize p) sim_normalize),
     sftp_listdir = (\<lambda>p. inject (SftpListdir p) (\<lambda>w. (Inr [], w))),
     sftp_stat = (\<lambda>p. inject (SftpStat p) (sim_stat p)),
     sftp_mkdir = (\<lambda>p. inject (SftpMkdir p) (sim_mkdir p)),
     sftp_put = (\<lambda>l r. inject (SftpPut l r) (sim_put l r)),
     sftp_close = inject SftpClose (\<lambda>w. (Inr (), w)),
     transport_close = inject TransportClose (\<lambda>w. (Inr (), w\<lparr>connections := connections w - 1\<rparr>))\<rparr>"

definition example_settings :: "string list \<Rightarrow> real \<Rightarrow> settings" where
  "example_settings allowed max_mb =
     \<lparr>TEMP_DOWNLOAD_DIR = ''/app/temp_files'', DRIVE_FOLDER_ID = [], ARCHIVE_FOLDER_NAME = ''Sigma_Archive'',
      SFTP_HOST = [], SFTP_PORT = 22, SFTP_USERNAME = [], POLL_INTERVAL = 30,
      ALLOWED_EXTENSIONS = allowed, MAX_FILE_SIZE_MB = max_mb\<rparr>"

definition example_watcher :: watcher where
  "example_watcher =
     \<lparr>sftp_conf = \<lparr>conf_host = Some ''sftp.example.org'', conf_port = Some 22, conf_username = Some ''bob'',
                   conf_password = Some ''secret'', conf_key_file = None\<rparr>,
      temp_dir = ''/app/temp_files''\<rparr>"

definition plain_file :: "string \<Rightarrow> string \<Rightarrow> int \<Rightarrow> string \<Rightarrow> dfile" where
  "plain_file i n sz parent = \<lparr>d_id = i, d_name = n, d_mimeType = ''application/octet-stream'',
                               d_size = sz, d_parents = [parent]\<rparr>"

definition scenario :: sim where
  "scenario =
     \<lparr>drive = [plain_file ''id-a'' ''a.csv'' 512000 ''inbox'', plain_file ''id-big'' ''big.bin'' 2048000 ''inbox''],
      page_cap = 100, local_files = [], remote_home = Some ''/home/bob'', remote_dirs = [''/home'', ''/home/bob''],
      remote_files = [], connections = 0, clock = 0, faults = []\<rparr>"

text \<open>An environment in which every call succeeds and nothing changes.\<close>

definition quiet_env :: "'w env" where
  "quiet_env = \<lparr>
     time_sleep = (\<lambda>d w. w),
     files_list = (\<lambda>q n f t w. (Inr \<lparr>resp_files = None, nextPageToken = None\<rparr>, w)),
     files_get = (\<lambda>i f w. (Inr \<lparr>m_id = i, m_name = None, m_mimeType = None, m_parents = None\<rparr>, w)),
     files_update = (\<lambda>i a r w. (Inr (), w)),
     files_create = (\<lambda>n w. (Inr None, w)),
     files_delete = (\<lambda>i w. (Inr (), w)),
     media_download = (\<lambda>i m p w. (Inr (), w)),
     os_makedirs = (\<lambda>p w. (Inr (), w)),
     os_getsize = (\<lambda>p w. (Inr 0, w)),
     os_exists = (\<lambda>p w. (False, w)),
     os_remove = (\<lambda>p w. (Inr (), w)),
     transport_open = (\<lambda>h p w. (Inr (), w)),
     load_private_key = (\<lambda>k w. (Inr (), w)),
     transport_connect = (\<lambda>u p k w. (Inr (), w)),
     sftp_from_transport = (\<lambda>w. (Inr (), w)),
     sftp_normalize = (\<lambda>p w. (Inr p, w)),
     sftp_listdir = (\<lambda>p w. (Inr [], w)),
     sftp_stat = (\<lambda>p w. (Inr (), w)),
     sftp_mkdir = (\<lambda>p w. (Inr (), w)),
     sftp_put = (\<lambda>l r w. (Inr (), w)),
     sftp_close = (\<lambda>w. (Inr (), w)),
     transport_close = (\<lambda>w. (Inr (), w))\<rparr>"

definition bob :: "string option \<Rightarrow> sftp_handler" where
  "bob hm = \<lparr>host = ''sftp.example'', port = 22, username = ''bob'', password = Some ''pw'',
      key_file = None, transport = True, sftp = True, home = hm\<rparr>"

definition flaky :: "nat \<Rightarrow> nat \<Rightarrow> (exn + nat) \<times> nat" where
  "flaky k n = (if n < k then Inl (if n = 0 then HttpError ''503'' else OtherError ''timeout'') else Inr n, Suc n)"

section \<open>The words of the specification\<close>

text \<open>The suffix after the last dot of a name; empty when the name has no dot.\<close>

definition suffix_after_last_dot :: "string \<Rightarrow> string" where
  "suffix_after_last_dot name =
     (if CHR ''.'' \<in> set name then rev (takeWhile (\<lambda>c. c \<noteq> CHR ''.'') (rev name)) else [])"

section \<open>Reading the trace of a directory preparation\<close>

text \<open>
  The accumulated paths of \<open>makedirs\<close>, and what a trace says about them: the paths
  \<open>stat\<close> was called on, those where it raised an \<open>IOError\<close>, the paths \<open>mkdir\<close> was
  called on, the \<open>mkdir\<close> failures that are not permission failures, the warnings logged
  for a failed \<open>mkdir\<close>, and the exceptions that end the preparation.
\<close>

fun prefix_paths :: "bool \<Rightarrow> string \<Rightarrow> string list \<Rightarrow> string list" where
  "prefix_paths absolute path [] = []"
| "prefix_paths absolute path (p # ps) =
     next_path absolute path p # prefix_paths absolute (next_path absolute path p) ps"

definition stat_of :: "event \<Rightarrow> string list" where
  "stat_of ev = (case ev of Call (SftpStat p) _ \<Rightarrow> [p] | _ \<Rightarrow> [])"

definition failed_stat_of :: "event \<Rightarrow> string list" where
  "failed_stat_of ev = (case ev of Call (SftpStat p) (Some e) \<Rightarrow> if is_ioerror e then [p] else [] | _ \<Rightarrow> [])"

definition mkdir_of :: "event \<Rightarrow> string list" where
  "mkdir_of ev = (case ev of Call (SftpMkdir p) _ \<Rightarrow> [p] | _ \<Rightarrow> [])"

definition tolerated_of :: "event \<Rightarrow> (string \<times> exn) list" where
  "tolerated_of ev =
     (case ev of Call (SftpMkdir p) (Some e) \<Rightarrow> if is_eacces e then [] else [(p, e)] | _ \<Rightarrow> [])"

definition warned_of :: "event \<Rightarrow> (string \<times> exn) list" where
  "warned_of ev =
     (case ev of
        Log WARNING [Str a, Str p, Str b, Exc e] \<Rightarrow>
          if a = ''SFTP: mkdir failed for '' \<and> b = '': '' then [(p, e)] else []
      | _ \<Rightarrow> [])"

definition abort_of :: "event \<Rightarrow> exn list" where
  "abort_of ev =
     (case ev of
        Call (SftpMkdir p) (Some e) \<Rightarrow> if is_eacces e then [e] else []
      | Call (SftpStat p) (Some e) \<Rightarrow> if is_ioerror e then [] else [e]
      | _ \<Rightarrow> [])"

definition collect :: "(event \<Rightarrow> 'a list) \<Rightarrow> event list \<Rightarrow> 'a list" where
  "collect f evs = concat (map f evs)"

definition walk_ok :: "bool \<Rightarrow> string \<Rightarrow> string list \<Rightarrow> (exn + unit) \<Rightarrow> event list \<Rightarrow> bool" where
  "walk_ok absolute path0 parts r new \<longleftrightarrow>
     (\<exists>k. collect stat_of new = take k (prefix_paths absolute path0 parts)) \<and>
     (r = Inr () \<longrightarrow> collect stat_of new = prefix_paths absolute path0 parts) \<and>
     collect mkdir_of new = collect failed_stat_of new \<and>
     collect warned_of new = collect tolerated_of new \<and>
     (case r of
        Inr _ \<Rightarrow> collect abort_of new = []
      | Inl e \<Rightarrow> new \<noteq> [] \<and> collect abort_of new = [e] \<and> abort_of (last new) = [e])"

definition sftp_world :: "string list \<Rightarrow> (call \<times> exn) list \<Rightarrow> sim" where
  "sftp_world dirs fs =
     \<lparr>drive = [], page_cap = 100, local_files = [], remote_home = Some ''/home/bob'', remote_dirs = dirs,
      remote_files = [], connections = 1, clock = 0, faults = fs\<rparr>"

section \<open>Pages served to a listing\<close>

text \<open>
  \<open>served E q n tok s pages s'\<close>: from the state \<open>s\<close> and the token \<open>tok\<close>, the page requests,
  each made through the retry helper and each carrying the token of the page before, are
  answered with \<open>pages\<close>; the last page carries no token and leaves the state \<open>s'\<close>.
\<close>

fun served :: "'w env \<Rightarrow> string \<Rightarrow> nat \<Rightarrow> string option \<Rightarrow> 'w st \<Rightarrow> list_response list \<Rightarrow> 'w st \<Rightarrow> bool" where
  "served E q n tok s [] s' = False"
| "served E q n tok s (resp # rest) s' =
     (case retry E (extern (FilesList q n list_fields tok) (files_list E q n list_fields tok)) s of
        (Inr r, s1) \<Rightarrow>
          r = resp \<and>
          (if truthy (nextPageToken resp) then served E q n (nextPageToken resp) s1 rest s'
           else rest = [] \<and> s' = s1)
      | (Inl e, s1) \<Rightarrow> False)"

definition meta :: "string \<Rightarrow> string \<Rightarrow> file_meta" where
  "meta i n = \<lparr>m_id = Some i, m_name = Some n, m_mimeType = Some ''text/csv'', m_parents = Some [''inbox'']\<rparr>"

text \<open>
  A listing into which a file is inserted between two page requests: the last entry of the
  first page comes again as the first entry of the second.
\<close>

definition shifting_list :: "string option \<Rightarrow> list_response" where
  "shifting_list tok =
     (if tok = None then \<lparr>resp_files = Some [meta ''id-a'' ''a.csv'', meta ''id-b'' ''b.csv''], nextPageToken = Some ''p2''\<rparr>
      else \<lparr>resp_files = Some [meta ''id-b'' ''b.csv'', meta ''id-c'' ''c.csv''], nextPageToken = None\<rparr>)"

definition shifting_env :: "unit env" where
  "shifting_env = quiet_env\<lparr>files_list := (\<lambda>q n f tok w. (Inr (shifting_list tok), w))\<rparr>"

definition three_files :: "(call \<times> exn) list \<Rightarrow> sim" where
  "three_files fs =
     \<lparr>drive = [plain_file ''id-a'' ''a.csv'' 10 ''inbox'', plain_file ''id-b'' ''b.csv'' 20 ''inbox'',
               plain_file ''id-c'' ''c.csv'' 30 ''inbox''],
      page_cap = 2, local_files = [], remote_home = None, remote_dirs = [], remote_files = [],
      connections = 0, clock = 0, faults = fs\<rparr>"

definition page :: "dfile list \<Rightarrow> string option \<Rightarrow> list_response" where
  "page ds tok = \<lparr>resp_files = Some (map to_meta ds), nextPageToken = tok\<rparr>"

section \<open>Strings: auxiliary facts\<close>

lemma rfind_absent: "c \<notin> set s \<Longrightarrow> rfind c s = - 1"
  by (induction s) (auto simp: Let_def)

lemma rfind_nonneg: "c \<in> set s \<Longrightarrow> 0 \<le> rfind c s"
  by (induction s) (auto simp: Let_def)

lemma rfind_last: "c \<notin> set b \<Longrightarrow> rfind c (a @ c # b) = int (length a)"
  by (induction a) (auto simp: Let_def rfind_absent)

lemma split_last: "c \<in> set s \<Longrightarrow> \<exists>a b. s = a @ c # b \<and> c \<notin> set b"
  by (metis split_list_last)

lemma suffix_after_last_dot_app:
  "CHR ''.'' \<notin> set b \<Longrightarrow> suffix_after_last_dot (a @ CHR ''.'' # b) = b"
proof -
  assume b: "CHR ''.'' \<notin> set b"
  then have tw: "takeWhile (\<lambda>c. c \<noteq> CHR ''.'') (rev b) = rev b"
    by (intro takeWhile_eq_all_conv[THEN iffD2]) auto
  show ?thesis by (simp add: suffix_after_last_dot_def takeWhile_tail tw)
qed

lemma dropWhile_all: "\<forall>x\<in>set a. P x \<Longrightarrow> dropWhile P (a @ b) = dropWhile P b"
  by (induction a) auto

lemma dropWhile_none: "\<forall>x\<in>set b. \<not> P x \<Longrightarrow> dropWhile P b = b"
  by (cases b) auto


lemma splitext_base:
  assumes v: "CHR ''/'' \<notin> set v" and u: "u = [] \<or> last u = CHR ''/''"
  shows "lstrip CHR ''.'' (snd (splitext (u @ v))) =
         suffix_after_last_dot (dropWhile (\<lambda>c. c = CHR ''.'') v)"
proof (cases "CHR ''.'' \<in> set v")
  case False
  have sep: "rfind CHR ''/'' (u @ v) = int (length u) - 1"
  proof (cases "u = []")
    case True then show ?thesis using v by (simp add: rfind_absent)
  next
    case F: False
    then obtain u' where "u = u' @ [CHR ''/'']" using u by (metis append_butlast_last_id)
    then show ?thesis using rfind_last[OF v, of u'] by simp
  qed
  have nd: "CHR ''.'' \<notin> set (dropWhile (\<lambda>c. c = CHR ''.'') v)"
    using False by (meson in_mono set_dropWhileD)
  show ?thesis
  proof (cases "CHR ''.'' \<in> set u")
    case Fu: False
    then have "rfind CHR ''.'' (u @ v) = - 1" using False by (simp add: rfind_absent)
    then show ?thesis using nd sep by (simp add: splitext_def lstrip_def suffix_after_last_dot_def)
  next
    case True
    then obtain a b where ab: "u = a @ CHR ''.'' # b" "CHR ''.'' \<notin> set b" using split_last by metis
    then have "rfind CHR ''.'' (u @ v) = int (length a)"
      using rfind_last[of "CHR ''.''" "b @ v" a] False by simp
    moreover have "length a < length u" using ab by simp
    ultimately show ?thesis using nd sep by (simp add: splitext_def lstrip_def suffix_after_last_dot_def)
  qed
next
  case True
  then obtain a b where ab: "v = a @ CHR ''.'' # b" "CHR ''.'' \<notin> set b" using split_last by metis
  have sep: "rfind CHR ''/'' (u @ v) = int (length u) - 1"
  proof (cases "u = []")
    case True then show ?thesis using v by (simp add: rfind_absent)
  next
    case F: False
    then obtain u' where "u = u' @ [CHR ''/'']" using u by (metis append_butlast_last_id)
    then show ?thesis using rfind_last[OF v, of u'] by simp
  qed
  have dot: "rfind CHR ''.'' (u @ v) = int (length u + length a)"
    using rfind_last[OF ab(2), of "u @ a"] ab by simp
  have slice: "take (nat (int (length u + length a) - (int (length u) - 1 + 1))) (drop (nat (int (length u) - 1 + 1)) (u @ v)) = a"
    using ab by simp
  have bb: "dropWhile (\<lambda>c. c = CHR ''.'') b = b" using ab(2) by (intro dropWhile_none) auto
  show ?thesis
  proof (cases "\<forall>x\<in>set a. x = CHR ''.''")
    case T: True
    then have "\<not> list_ex (\<lambda>c. c \<noteq> CHR ''.'') a" by (simp add: list_ex_iff)
    then have "snd (splitext (u @ v)) = []"
      unfolding splitext_def Let_def sep dot slice by simp
    moreover have "dropWhile (\<lambda>c. c = CHR ''.'') v = b"
      using T ab bb by (simp add: dropWhile_all)
    ultimately show ?thesis using ab(2) by (simp add: lstrip_def suffix_after_last_dot_def)
  next
    case F: False
    then have "list_ex (\<lambda>c. c \<noteq> CHR ''.'') a" by (auto simp add: list_ex_iff)
    then have "snd (splitext (u @ v)) = CHR ''.'' # b"
      unfolding splitext_def Let_def sep dot slice using ab by simp
    moreover have "dropWhile (\<lambda>c. c = CHR ''.'') v = dropWhile (\<lambda>c. c = CHR ''.'') a @ CHR ''.'' # b"
      using F ab by (auto simp add: dropWhile_append1)
    ultimately show ?thesis using ab(2) bb by (simp add: lstrip_def suffix_after_last_dot_app)
  qed
qed

lemma basename_decomp: "\<exists>u. p = u @ basename p \<and> (u = [] \<or> last u = CHR ''/'') \<and> CHR ''/'' \<notin> set (basename p)"
proof (cases "CHR ''/'' \<in> set p")
  case False
  then show ?thesis by (simp add: basename_def rfind_absent)
next
  case True
  then obtain a b where ab: "p = a @ CHR ''/'' # b" "CHR ''/'' \<notin> set b" using split_last by metis
  then have "rfind CHR ''/'' p = int (length a)" by (simp add: rfind_last)
  moreover have "nat (int (length a) + 1) = Suc (length a)" by simp
  ultimately have "basename p = b" using ab by (simp add: basename_def)
  then show ?thesis using ab by (intro exI[of _ "a @ [CHR ''/'']"]) simp
qed

lemma splitext_extension:
  "lstrip CHR ''.'' (snd (splitext p)) = suffix_after_last_dot (dropWhile (\<lambda>c. c = CHR ''.'') (basename p))"
  using basename_decomp[of p] splitext_base by metis

lemma rstrip_shape:
  "(\<exists>n. s = rstrip c s @ replicate n c) \<and> (rstrip c s = [] \<or> last (rstrip c s) \<noteq> c)"
proof -
  have "rev s = takeWhile (\<lambda>x. x = c) (rev s) @ dropWhile (\<lambda>x. x = c) (rev s)" by simp
  then have "s = rstrip c s @ rev (takeWhile (\<lambda>x. x = c) (rev s))"
    unfolding rstrip_def by (metis rev_append rev_rev_ident)
  moreover have "rev (takeWhile (\<lambda>x. x = c) (rev s)) = replicate (length (takeWhile (\<lambda>x. x = c) (rev s))) c"
    by (metis (mono_tags, lifting) length_rev replicate_eqI set_rev set_takeWhileD)
  ultimately have a: "\<exists>n. s = rstrip c s @ replicate n c" by metis
  have b: "rstrip c s = [] \<or> last (rstrip c s) \<noteq> c"
  proof (cases "dropWhile (\<lambda>x. x = c) (rev s)")
    case Nil then show ?thesis by (simp add: rstrip_def)
  next
    case (Cons y ys)
    then have "y \<noteq> c" by (simp add: dropWhile_eq_Cons_conv)
    then show ?thesis using Cons by (simp add: rstrip_def)
  qed
  show ?thesis using a b by blast
qed

section \<open>The extension filter\<close>

text \<open>
  C10 (as amended). Under a non-empty allow-list, \<open>_filter_allowed\<close> compares the lowercased
  extension of the name with the lowercased allow-list, where the extension is the suffix after
  the last dot of the name's last path component with its leading dots removed (empty when
  nothing of that has a dot). A name without any dot is accepted exactly when the allow-list
  contains the empty string.
\<close>

theorem filter_allowed_extension:
  "ALLOWED_EXTENSIONS cfg \<noteq> [] \<Longrightarrow>
     filter_allowed cfg name =
       (lower (suffix_after_last_dot (dropWhile (\<lambda>c. c = CHR ''.'') (basename name)))
          \<in> set (map lower (ALLOWED_EXTENSIONS cfg))) \<and>
     (CHR ''.'' \<notin> set name \<longrightarrow> filter_allowed cfg name = ([] \<in> set (ALLOWED_EXTENSIONS cfg)))"
proof -
  assume ne: "ALLOWED_EXTENSIONS cfg \<noteq> []"
  have a: "filter_allowed cfg name =
       (lower (suffix_after_last_dot (dropWhile (\<lambda>c. c = CHR ''.'') (basename name)))
          \<in> set (map lower (ALLOWED_EXTENSIONS cfg)))"
    using ne by (simp add: filter_allowed_def splitext_extension)
  have b: "filter_allowed cfg name = ([] \<in> set (ALLOWED_EXTENSIONS cfg))" if nd: "CHR ''.'' \<notin> set name"
  proof -
    have "CHR ''.'' \<notin> set (dropWhile (\<lambda>c. c = CHR ''.'') (basename name))"
      using nd by (metis basename_def in_set_dropD set_dropWhileD)
    then have "suffix_after_last_dot (dropWhile (\<lambda>c. c = CHR ''.'') (basename name)) = []"
      by (simp add: suffix_after_last_dot_def)
    then show ?thesis using a by (auto simp: lower_def)
  qed
  show ?thesis using a b by blast
qed

theorem filter_allowed_extension_witness:
  "ALLOWED_EXTENSIONS (example_settings [''csv'', ''TXT''] 0) \<noteq> [] \<and>
   filter_allowed (example_settings [''csv'', ''TXT''] 0) ''report.v2.Txt''"
proof -
  have h: "ALLOWED_EXTENSIONS (example_settings [''csv'', ''TXT''] 0) \<noteq> []"
    by (simp add: example_settings_def)
  have e: "lower (suffix_after_last_dot (dropWhile (\<lambda>c. c = CHR ''.'') (basename ''report.v2.Txt'')))
             \<in> set (map lower (ALLOWED_EXTENSIONS (example_settings [''csv'', ''TXT''] 0)))"
    by code_simp
  show ?thesis using filter_allowed_extension[OF h, of "''report.v2.Txt''"] h e by blast
qed

text \<open>
  The claim as worded fails twice: the name \<open>.csv\<close> has the suffix \<open>csv\<close> after its last
  dot and is rejected under the allow-list \<open>["csv"]\<close>; the name \<open>README\<close> has no dot and is
  accepted under the non-empty allow-list \<open>[""]\<close>.
\<close>

theorem filter_allowed_counterexample:
  "\<not> (filter_allowed (example_settings [''csv''] 0) ''.csv'' \<longleftrightarrow>
        lower (suffix_after_last_dot ''.csv'') \<in> set (map lower (ALLOWED_EXTENSIONS (example_settings [''csv''] 0)))) \<and>
   CHR ''.'' \<notin> set ''README'' \<and> ALLOWED_EXTENSIONS (example_settings [''''] 0) \<noteq> [] \<and> filter_allowed (example_settings [''''] 0) ''README''"
  by code_simp

section \<open>The destination directory\<close>

text \<open>
  C6. For the user \<open>bob\<close>: with the home \<open>/home/bob\<close> the destination is
  \<open>/home/bob/catalog\<close>; with any resolved (non-empty) home it is the home without its trailing
  slashes, followed by \<open>/catalog\<close>; with no home it is the fixed template path.
\<close>

theorem get_auto_remote_dir_resolves:
  "username h = ''bob'' \<Longrightarrow>
     (home h = Some ''/home/bob'' \<longrightarrow> fst (get_auto_remote_dir h s) = ''/home/bob/catalog'') \<and>
     (home h = Some hm \<and> hm \<noteq> [] \<longrightarrow>
        fst (get_auto_remote_dir h s) = rstrip CHR ''/'' hm @ ''/catalog'' \<and>
        (\<exists>n. hm = rstrip CHR ''/'' hm @ replicate n CHR ''/'') \<and>
        (rstrip CHR ''/'' hm = [] \<or> last (rstrip CHR ''/'' hm) \<noteq> CHR ''/'')) \<and>
     (home h = None \<longrightarrow>
        fst (get_auto_remote_dir h s) = ''/vendor-automation-sftp-storage-live-me-1/home/bob/catalog'')"
proof -
  assume u: "username h = ''bob''"
  have a: "fst (get_auto_remote_dir h s) = ''/home/bob/catalog''" if "home h = Some ''/home/bob''"
    using that by (simp add: get_auto_remote_dir_def truthy_def rstrip_def Let_def)
  have b: "fst (get_auto_remote_dir h s) = rstrip CHR ''/'' hm @ ''/catalog''" if "home h = Some hm" "hm \<noteq> []"
    using that by (simp add: get_auto_remote_dir_def truthy_def Let_def)
  have c: "fst (get_auto_remote_dir h s) = ''/vendor-automation-sftp-storage-live-me-1/home/bob/catalog''"
    if "home h = None"
    using that u by (simp add: get_auto_remote_dir_def truthy_def aws_intended_dir_def Let_def)
  show ?thesis using a b c rstrip_shape[of hm "CHR ''/''"] by blast
qed

theorem get_auto_remote_dir_resolves_witness:
  "username (bob (Some ''/srv/bob//'')) = ''bob'' \<and> home (bob (Some ''/srv/bob//'')) = Some ''/srv/bob//''
   \<and> fst (get_auto_remote_dir (bob (Some ''/srv/bob//'')) ((), [])) = ''/srv/bob/catalog''"
proof -
  have u: "username (bob (Some ''/srv/bob//'')) = ''bob''" by (simp add: bob_def)
  have hm: "home (bob (Some ''/srv/bob//'')) = Some ''/srv/bob//''" by (simp add: bob_def)
  have r: "rstrip CHR ''/'' ''/srv/bob//'' = ''/srv/bob''" by (simp add: rstrip_def)
  show ?thesis
    using get_auto_remote_dir_resolves[OF u, where hm = "''/srv/bob//''" and s = "((), [])"] u hm r by simp
qed

section \<open>The retry helper\<close>

lemma retry3_unfold: "retry_with E f 3 b s = retry_loop E f 3 b [1, 2, 3] None s"
proof -
  have "[1..<3 + 1] = [1, 2, 3::nat]" by (simp add: upt_rec)
  then show ?thesis by (simp only: retry_with_def)
qed

text \<open>
  C4. With three attempts, a call that fails twice is run a third time, after a warning and a
  sleep of \<open>base_sleep * 2 ^ (attempt - 1)\<close> following each failure. If the third attempt
  succeeds its result is returned and two warnings have been logged; if it fails its exception
  is raised after a third warning and no further sleep. The exceptions are arbitrary: their
  class only chooses the first word of the warning.
\<close>

theorem retry_three_attempts:
  fixes op :: "'w \<Rightarrow> (exn + 'a) \<times> 'w"
  assumes a1: "op w0 = (Inl e1, w1)"
      and a2: "op (time_sleep E (b * 2 ^ 0) w1) = (Inl e2, w2)"
      and a3: "op (time_sleep E (b * 2 ^ 1) w2) = (r3, w3)"
  shows "retry_with E (extern c op) 3 b (w0, tr) =
           (r3, (w3, tr @
              [Call c (Some e1),
               Log WARNING [Str (case e1 of HttpError _ \<Rightarrow> ''HttpError on attempt '' | _ \<Rightarrow> ''Error on attempt ''),
                            Num 1, Str ''/'', Num 3, Str '': '', Exc e1],
               Call (TimeSleep (b * 2 ^ 0)) None,
               Call c (Some e2),
               Log WARNING [Str (case e2 of HttpError _ \<Rightarrow> ''HttpError on attempt '' | _ \<Rightarrow> ''Error on attempt ''),
                            Num 2, Str ''/'', Num 3, Str '': '', Exc e2],
               Call (TimeSleep (b * 2 ^ 1)) None] @
              (case r3 of
                 Inr v \<Rightarrow> [Call c None]
               | Inl e3 \<Rightarrow>
                   [Call c (Some e3),
                    Log WARNING [Str (case e3 of HttpError _ \<Rightarrow> ''HttpError on attempt '' | _ \<Rightarrow> ''Error on attempt ''),
                                 Num 3, Str ''/'', Num 3, Str '': '', Exc e3]])))"
  using a1 a2 a3
  by (cases r3) (simp_all add: retry3_unfold extern_def logger_def sleep_def raised_def Let_def)

theorem retry_three_attempts_witness:
  "retry_with quiet_env (extern (FilesDelete None) (flaky 2)) 3 1 (0, []) =
     (Inr 2, (3,
        [Call (FilesDelete None) (Some (HttpError ''503'')),
         Log WARNING [Str ''HttpError on attempt '', Num 1, Str ''/'', Num 3, Str '': '', Exc (HttpError ''503'')],
         Call (TimeSleep 1) None,
         Call (FilesDelete None) (Some (OtherError ''timeout'')),
         Log WARNING [Str ''Error on attempt '', Num 2, Str ''/'', Num 3, Str '': '', Exc (OtherError ''timeout'')],
         Call (TimeSleep 2) None,
         Call (FilesDelete None) None]))"
proof -
  have a1: "flaky 2 0 = (Inl (HttpError ''503''), 1)" by (simp add: flaky_def)
  have a2: "flaky 2 (time_sleep quiet_env (1 * 2 ^ 0) 1) = (Inl (OtherError ''timeout''), 2)"
    by (simp add: flaky_def quiet_env_def)
  have a3: "flaky 2 (time_sleep quiet_env (1 * 2 ^ 1) 2) = (Inr 2, 3)"
    by (simp add: flaky_def quiet_env_def)
  show ?thesis
    using retry_three_attempts[where op = "flaky 2" and E = quiet_env and b = 1 and ?w0.0 = 0
        and ?w1.0 = 1 and ?w2.0 = 2 and ?w3.0 = 3 and ?e1.0 = "HttpError ''503''"
        and ?e2.0 = "OtherError ''timeout''" and ?r3.0 = "Inr 2" and c = "FilesDelete None"
        and tr = "[]", OF a1 a2 a3]
    by simp
qed

section \<open>Directory preparation\<close>

lemma collect_simps [simp]:
  "collect f [] = []" "collect f (x # xs) = f x @ collect f xs" "collect f (xs @ ys) = collect f xs @ collect f ys"
  by (simp_all add: collect_def)

lemma ex_take_Cons: "\<exists>k. ys = take k xs \<Longrightarrow> \<exists>k. x # ys = take k (x # xs)"
  by (metis take_Suc_Cons)

lemma ex_take_self: "\<exists>k. xs = take k xs"
  by (rule exI[of _ "length xs"]) simp

lemma walk_ok_stat_ok:
  "walk_ok a (next_path a path0 p) ps r new \<Longrightarrow>
   walk_ok a path0 (p # ps) r (Call (SftpStat (next_path a path0 p)) None # new)"
  unfolding walk_ok_def
  apply (simp add: stat_of_def failed_stat_of_def mkdir_of_def tolerated_of_def warned_of_def abort_of_def split: sum.splits)
  by (auto intro!: ex_take_Cons ex_take_self)

lemma walk_ok_created:
  "is_ioerror e \<Longrightarrow> walk_ok a (next_path a path0 p) ps r new \<Longrightarrow>
   walk_ok a path0 (p # ps) r
     (Call (SftpStat (next_path a path0 p)) (Some e) # Call (SftpMkdir (next_path a path0 p)) None #
      Log INFO [Str ''SFTP: mkdir '', Str (next_path a path0 p)] # new)"
  unfolding walk_ok_def
  apply (simp add: stat_of_def failed_stat_of_def mkdir_of_def tolerated_of_def warned_of_def abort_of_def split: sum.splits)
  by (auto intro!: ex_take_Cons ex_take_self)

lemma walk_ok_tolerated:
  "is_ioerror e \<Longrightarrow> \<not> is_eacces ee \<Longrightarrow> walk_ok a (next_path a path0 p) ps r new \<Longrightarrow>
   walk_ok a path0 (p # ps) r
     (Call (SftpStat (next_path a path0 p)) (Some e) # Call (SftpMkdir (next_path a path0 p)) (Some ee) #
      Log WARNING [Str ''SFTP: mkdir failed for '', Str (next_path a path0 p), Str '': '', Exc ee] # new)"
  unfolding walk_ok_def
  apply (simp add: stat_of_def failed_stat_of_def mkdir_of_def tolerated_of_def warned_of_def abort_of_def split: sum.splits)
  by (auto intro!: ex_take_Cons ex_take_self)

lemma walk_ok_denied:
  "is_ioerror e \<Longrightarrow> is_eacces ee \<Longrightarrow>
   walk_ok a path0 (p # ps) (Inl ee)
     [Call (SftpStat (next_path a path0 p)) (Some e), Call (SftpMkdir (next_path a path0 p)) (Some ee)]"
  unfolding walk_ok_def
  apply (simp add: stat_of_def failed_stat_of_def mkdir_of_def tolerated_of_def warned_of_def abort_of_def)
  by (rule exI[of _ 1]) simp

lemma walk_ok_stat_raises:
  "\<not> is_ioerror e \<Longrightarrow>
   walk_ok a path0 (p # ps) (Inl e) [Call (SftpStat (next_path a path0 p)) (Some e)]"
  unfolding walk_ok_def
  apply (simp add: stat_of_def failed_stat_of_def mkdir_of_def tolerated_of_def warned_of_def abort_of_def)
  by (rule exI[of _ 1]) simp

lemma makedirs_loop_walk:
  "makedirs_loop E a parts path0 (w, tr) = (r, (w', tr')) \<Longrightarrow>
     \<exists>new. tr' = tr @ new \<and> walk_ok a path0 parts r new"
proof (induction parts arbitrary: path0 w tr)
  case Nil
  then show ?case by (auto simp: walk_ok_def)
next
  case (Cons p ps)
  let ?path = "next_path a path0 p"
  obtain rs w1 where st: "sftp_stat E ?path w = (rs, w1)" by (cases "sftp_stat E ?path w")
  show ?case
  proof (cases rs)
    case (Inr u)
    with Cons.prems st have "makedirs_loop E a ps ?path (w1, tr @ [Call (SftpStat ?path) None]) = (r, (w', tr'))"
      by (simp add: extern_def raised_def Let_def)
    from Cons.IH[OF this] obtain new where "tr' = (tr @ [Call (SftpStat ?path) None]) @ new" "walk_ok a ?path ps r new"
      by blast
    then show ?thesis using walk_ok_stat_ok by (intro exI[of _ "Call (SftpStat ?path) None # new"]) simp
  next
    case (Inl e)
    show ?thesis
    proof (cases "is_ioerror e")
      case False
      with Cons.prems st Inl have "r = Inl e" "tr' = tr @ [Call (SftpStat ?path) (Some e)]"
        by (simp_all add: extern_def raised_def Let_def)
      then show ?thesis using walk_ok_stat_raises[OF False] by simp
    next
      case True
      let ?tr1 = "tr @ [Call (SftpStat ?path) (Some e)]"
      obtain rm w2 where mk: "sftp_mkdir E ?path w1 = (rm, w2)" by (cases "sftp_mkdir E ?path w1")
      show ?thesis
      proof (cases rm)
        case (Inr u)
        with Cons.prems st Inl True mk have
          "makedirs_loop E a ps ?path (w2, ?tr1 @ [Call (SftpMkdir ?path) None, Log INFO [Str ''SFTP: mkdir '', Str ?path]]) = (r, (w', tr'))"
          by (simp add: extern_def raised_def Let_def logger_def)
        from Cons.IH[OF this] obtain new where
          "tr' = (?tr1 @ [Call (SftpMkdir ?path) None, Log INFO [Str ''SFTP: mkdir '', Str ?path]]) @ new"
          "walk_ok a ?path ps r new" by blast
        then show ?thesis using walk_ok_created[OF True]
          by (intro exI[of _ "Call (SftpStat ?path) (Some e) # Call (SftpMkdir ?path) None # Log INFO [Str ''SFTP: mkdir '', Str ?path] # new"]) simp
      next
        case ee: (Inl ee)
        show ?thesis
        proof (cases "is_eacces ee")
          case T: True
          with Cons.prems st Inl True mk ee have "r = Inl ee" "tr' = ?tr1 @ [Call (SftpMkdir ?path) (Some ee)]"
            by (simp_all add: extern_def raised_def Let_def)
          then show ?thesis using walk_ok_denied[OF True T] by simp
        next
          case F: False
          let ?w = "Log WARNING [Str ''SFTP: mkdir failed for '', Str ?path, Str '': '', Exc ee]"
          from Cons.prems st Inl True mk ee F have
            "makedirs_loop E a ps ?path (w2, ?tr1 @ [Call (SftpMkdir ?path) (Some ee), ?w]) = (r, (w', tr'))"
            by (simp add: extern_def raised_def Let_def logger_def)
          from Cons.IH[OF this] obtain new where
            "tr' = (?tr1 @ [Call (SftpMkdir ?path) (Some ee), ?w]) @ new" "walk_ok a ?path ps r new" by blast
          then show ?thesis using walk_ok_tolerated[OF True F]
            by (intro exI[of _ "Call (SftpStat ?path) (Some e) # Call (SftpMkdir ?path) (Some ee) # ?w # new"]) simp
        qed
      qed
    qed
  qed
qed

text \<open>
  C7 (as amended). \<open>makedirs\<close> visits the accumulated prefixes of the path from left to
  right, all of them when it returns normally. It calls \<open>mkdir\<close> exactly on the prefixes
  whose \<open>stat\<close> raised an \<open>IOError\<close>. It raises exactly when a \<open>stat\<close> raised another
  exception or a \<open>mkdir\<close> raised an \<open>IOError\<close> with \<open>errno = EACCES\<close>; that call is then the
  last one made and its exception is the one raised. Every other \<open>mkdir\<close> failure, an
  already-exists condition included, is logged as a warning and the walk goes on.
\<close>

theorem makedirs_walks_prefixes:
  assumes run: "makedirs E remote_dir (w, tr) = (r, (w', tr'))"
      and dir: "remote_dir \<notin> set ['''', ''/'', ''.'', ''~'']"
  shows "\<exists>new. tr' = tr @ new \<and>
           (\<exists>k. collect stat_of new =
                  take k (prefix_paths (startswith remote_dir ''/'') [] (path_parts remote_dir))) \<and>
           (r = Inr () \<longrightarrow>
              collect stat_of new = prefix_paths (startswith remote_dir ''/'') [] (path_parts remote_dir)) \<and>
           collect mkdir_of new = collect failed_stat_of new \<and>
           collect warned_of new = collect tolerated_of new \<and>
           (case r of
              Inr _ \<Rightarrow> collect abort_of new = []
            | Inl e \<Rightarrow> new \<noteq> [] \<and> collect abort_of new = [e] \<and> abort_of (last new) = [e])"
proof -
  from run dir have
    "makedirs_loop E (startswith remote_dir ''/'') (path_parts remote_dir) [] (w, tr) = (r, (w', tr'))"
    by (simp add: makedirs_def)
  from makedirs_loop_walk[OF this] show ?thesis unfolding walk_ok_def by blast
qed

theorem makedirs_walks_prefixes_witness:
  "makedirs sim_env ''/home/bob/catalog''
       (sftp_world [''/home''] [(SftpMkdir ''/home/bob'', IOError None ''Failure'')], []) =
     (Inr (), (sftp_world [''/home'', ''/home/bob/catalog''] [],
        [Call (SftpStat ''/home'') None,
         Call (SftpStat ''/home/bob'') (Some (IOError (Some ENOENT) ''No such file'')),
         Call (SftpMkdir ''/home/bob'') (Some (IOError None ''Failure'')),
         Log WARNING [Str ''SFTP: mkdir failed for '', Str ''/home/bob'', Str '': '', Exc (IOError None ''Failure'')],
         Call (SftpStat ''/home/bob/catalog'') (Some (IOError (Some ENOENT) ''No such file'')),
         Call (SftpMkdir ''/home/bob/catalog'') None,
         Log INFO [Str ''SFTP: mkdir '', Str ''/home/bob/catalog'']])) \<and>
   ''/home/bob/catalog'' \<notin> set ['''', ''/'', ''.'', ''~''] \<and>
   prefix_paths (startswith ''/home/bob/catalog'' ''/'') [] (path_parts ''/home/bob/catalog'') =
     [''/home'', ''/home/bob'', ''/home/bob/catalog'']"
proof -
  let ?T = "[Call (SftpStat ''/home'') None,
         Call (SftpStat ''/home/bob'') (Some (IOError (Some ENOENT) ''No such file'')),
         Call (SftpMkdir ''/home/bob'') (Some (IOError None ''Failure'')),
         Log WARNING [Str ''SFTP: mkdir failed for '', Str ''/home/bob'', Str '': '', Exc (IOError None ''Failure'')],
         Call (SftpStat ''/home/bob/catalog'') (Some (IOError (Some ENOENT) ''No such file'')),
         Call (SftpMkdir ''/home/bob/catalog'') None,
         Log INFO [Str ''SFTP: mkdir '', Str ''/home/bob/catalog'']]"
  have run: "makedirs sim_env ''/home/bob/catalog''
       (sftp_world [''/home''] [(SftpMkdir ''/home/bob'', IOError None ''Failure'')], []) =
     (Inr (), (sftp_world [''/home'', ''/home/bob/catalog''] [], ?T))"
    by code_simp
  have dir: "''/home/bob/catalog'' \<notin> set ['''', ''/'', ''.'', ''~'']" by simp
  from makedirs_walks_prefixes[OF run dir]
  have "collect stat_of ?T =
          prefix_paths (startswith ''/home/bob/catalog'' ''/'') [] (path_parts ''/home/bob/catalog'')"
    by simp
  moreover have "collect stat_of ?T = [''/home'', ''/home/bob'', ''/home/bob/catalog'']"
    by (simp add: stat_of_def)
  ultimately show ?thesis using run dir by simp
qed

text \<open>
  The claim as worded fails where \<open>stat\<close> raises something that is not an \<open>IOError\<close>: no
  creation is attempted for that prefix and the preparation is aborted by an exception that is
  not a permission failure.
\<close>

theorem makedirs_counterexample:
  "makedirs sim_env ''/home/bob/catalog''
       (sftp_world [''/home'', ''/home/bob'']
          [(SftpStat ''/home/bob/catalog'', OtherError ''Server connection dropped'')], []) =
     (Inl (OtherError ''Server connection dropped''),
      (sftp_world [''/home'', ''/home/bob''] [],
       [Call (SftpStat ''/home'') None, Call (SftpStat ''/home/bob'') None,
        Call (SftpStat ''/home/bob/catalog'') (Some (OtherError ''Server connection dropped''))])) \<and>
   \<not> is_eacces (OtherError ''Server connection dropped'')"
  by code_simp

section \<open>Listing a folder\<close>

lemma list_pages_served:
  "served E q n tok s pages s' \<Longrightarrow>
     list_pages E q n files tok s = Some (Inr (files @ concat (map items pages)), s')"
proof (induction pages arbitrary: tok s files)
  case Nil
  then show ?case by simp
next
  case (Cons resp rest)
  let ?call = "retry E (extern (FilesList q n list_fields tok) (files_list E q n list_fields tok)) s"
  obtain r s1 where c: "?call = (r, s1)" by (cases ?call)
  with Cons.prems obtain r: "r = Inr resp"
    and k: "if truthy (nextPageToken resp) then served E q n (nextPageToken resp) s1 rest s'
            else rest = [] \<and> s' = s1"
    by (cases r) auto
  show ?case
  proof (cases "truthy (nextPageToken resp)")
    case True
    with k have "served E q n (nextPageToken resp) s1 rest s'" by simp
    from Cons.IH[OF this, of "files @ items resp"] True c r show ?thesis
      by (subst list_pages.simps) (simp add: Let_def)
  next
    case False
    with k c r show ?thesis
      by (subst list_pages.simps) (simp add: Let_def)
  qed
qed

text \<open>
  C8 (as amended). When the service answers the page requests with a sequence of pages, the
  last of which carries no continuation token, \<open>list_files_in_folder\<close> returns the files of
  all pages, concatenated in page order, whatever the page size; each request goes through
  the retry helper. Nothing is removed from the concatenation.
\<close>

theorem list_files_in_folder_accumulates:
  assumes "served E (children_query folder_id) page_size None s pages s'"
  shows "list_files_in_folder E folder_id page_size None s =
           Some (Inr (concat (map items pages)),
                 logger INFO [Str ''Found '', Num (int (length (concat (map items pages)))),
                              Str '' file(s) in folder '', Str folder_id] s')"
  using list_pages_served[OF assms, of "[]"]
  by (simp add: list_files_in_folder_def truthy_def)

theorem list_files_in_folder_accumulates_witness:
  "served sim_env (children_query ''inbox'') 100 None
     (three_files [(FilesList (children_query ''inbox'') 100 list_fields (Some ''++''), HttpError ''503'')], [])
     [page [plain_file ''id-a'' ''a.csv'' 10 ''inbox'', plain_file ''id-b'' ''b.csv'' 20 ''inbox''] (Some ''++''),
      page [plain_file ''id-c'' ''c.csv'' 30 ''inbox''] None]
     ((three_files [])\<lparr>clock := 1\<rparr>,
      [Call (FilesList (children_query ''inbox'') 100 list_fields None) None,
       Call (FilesList (children_query ''inbox'') 100 list_fields (Some ''++'')) (Some (HttpError ''503'')),
       Log WARNING [Str ''HttpError on attempt '', Num 1, Str ''/'', Num 3, Str '': '', Exc (HttpError ''503'')],
       Call (TimeSleep 1) None,
       Call (FilesList (children_query ''inbox'') 100 list_fields (Some ''++'')) None]) \<and>
   (\<exists>s. list_files_in_folder sim_env ''inbox'' 100 None
     (three_files [(FilesList (children_query ''inbox'') 100 list_fields (Some ''++''), HttpError ''503'')], []) =
     Some (Inr (map to_meta [plain_file ''id-a'' ''a.csv'' 10 ''inbox'', plain_file ''id-b'' ''b.csv'' 20 ''inbox'',
                             plain_file ''id-c'' ''c.csv'' 30 ''inbox'']), s))"
proof -
  have h: "served sim_env (children_query ''inbox'') 100 None
     (three_files [(FilesList (children_query ''inbox'') 100 list_fields (Some ''++''), HttpError ''503'')], [])
     [page [plain_file ''id-a'' ''a.csv'' 10 ''inbox'', plain_file ''id-b'' ''b.csv'' 20 ''inbox''] (Some ''++''),
      page [plain_file ''id-c'' ''c.csv'' 30 ''inbox''] None]
     ((three_files [])\<lparr>clock := 1\<rparr>,
      [Call (FilesList (children_query ''inbox'') 100 list_fields None) None,
       Call (FilesList (children_query ''inbox'') 100 list_fields (Some ''++'')) (Some (HttpError ''503'')),
       Log WARNING [Str ''HttpError on attempt '', Num 1, Str ''/'', Num 3, Str '': '', Exc (HttpError ''503'')],
       Call (TimeSleep 1) None,
       Call (FilesList (children_query ''inbox'') 100 list_fields (Some ''++'')) None])"
    by code_simp
  show ?thesis
    using list_files_in_folder_accumulates[OF h] h by (simp add: items_def page_def)
qed

text \<open>
  The result can hold an identifier twice: the code appends every page as it comes.
\<close>

theorem list_files_in_folder_counterexample:
  "list_files_in_folder shifting_env ''inbox'' 100 None ((), []) =
     Some (Inr [meta ''id-a'' ''a.csv'', meta ''id-b'' ''b.csv'', meta ''id-b'' ''b.csv'', meta ''id-c'' ''c.csv''],
           ((), [Call (FilesList (children_query ''inbox'') 100 list_fields None) None,
                 Call (FilesList (children_query ''inbox'') 100 list_fields (Some ''p2'')) None,
                 Log INFO [Str ''Found '', Num 4, Str '' file(s) in folder '', Str ''inbox'']])) \<and>
   \<not> distinct (map m_id [meta ''id-a'' ''a.csv'', meta ''id-b'' ''b.csv'', meta ''id-b'' ''b.csv'', meta ''id-c'' ''c.csv''])"
  by code_simp

end
